theory Spec2Isabelle
  imports Main
begin

section \<open>The analytics store of \<^verbatim>\<open>src/protocols/http.ts\<close>\<close>

text \<open>
  Modelling conventions. A JavaScript string is a \<open>string\<close>, one \<open>char\<close> per code unit
  (Node decodes header values as latin1, one code unit per byte). A value that may be
  \<^verbatim>\<open>undefined\<close> is an \<open>option\<close>. \<^verbatim>\<open>new Date().toISOString()\<close> is the argument \<open>now\<close>
  of the function that reads the clock. The module's mutable globals are passed in and
  returned.
\<close>

subsection \<open>Numbers\<close>

text \<open>
  A number that counts is a double whose value is an integer, written as that integer.
  \<^verbatim>\<open>x + y\<close> on two of them is the exact sum rounded to the nearest double, that is to 53
  significant bits, a tie going to the even one. Sums are exact up to \<open>2 ^ 53\<close> in
  absolute value; from \<open>2 ^ 1024\<close> on the runtime gives \<^verbatim>\<open>Infinity\<close>, which is not
  modelled.
\<close>

fun bitlen :: "nat \<Rightarrow> nat" where
  "bitlen n = (if n = 0 then 0 else Suc (bitlen (n div 2)))"

definition roundNat :: "nat \<Rightarrow> nat" where
  "roundNat n =
     (if n < 2 ^ 53 then n
      else
        (let e = bitlen n - 53; q = n div 2 ^ e; r = n mod 2 ^ e
         in if 2 * r > 2 ^ e \<or> (2 * r = 2 ^ e \<and> odd q) then (q + 1) * 2 ^ e else q * 2 ^ e))"

definition toDouble :: "int \<Rightarrow> int" where
  "toDouble x = (if x < 0 then - int (roundNat (nat (- x))) else int (roundNat (nat x)))"

definition js_add :: "int \<Rightarrow> int \<Rightarrow> int" where
  "js_add x y = toDouble (x + y)"

subsection \<open>What is thrown\<close>

text \<open>
  What a JavaScript \<^verbatim>\<open>throw\<close> carries in this module: a failure of the file system, a
  \<^verbatim>\<open>SyntaxError\<close> of \<^verbatim>\<open>JSON.parse\<close>, a \<^verbatim>\<open>TypeError\<close> of the runtime, or
  whatever a collaborator throws.
\<close>

datatype thrown = FsError | JsonSyntaxError | TypeError | CollaboratorError string

subsection \<open>Values of a request body\<close>

text \<open>
  A value that \<^verbatim>\<open>JSON.parse\<close> makes. A number is kept as the text JavaScript prints for
  it (\<open>0\<close> for both zeros); an object as its own properties, each key once.
\<close>

datatype jsvalue =
  VNull | VBool bool | VNumber string | VString string | VArray "jsvalue list"
  | VObject "(string \<times> jsvalue) list"

text \<open>A value read as a condition.\<close>

fun truthyValue :: "jsvalue \<Rightarrow> bool" where
  "truthyValue VNull = False"
| "truthyValue (VBool b) = b"
| "truthyValue (VNumber t) = (t \<noteq> ''0'')"
| "truthyValue (VString s) = (s \<noteq> [])"
| "truthyValue (VArray xs) = True"
| "truthyValue (VObject ps) = True"

text \<open>
  \<^verbatim>\<open>v.k\<close> for a key \<open>k\<close> that no built-in prototype defines (\<open>method\<close>, \<open>params\<close>,
  \<open>name\<close>): an own property of an object, undefined on every other value.
\<close>

fun property :: "jsvalue \<Rightarrow> string \<Rightarrow> jsvalue option" where
  "property (VObject ps) k = map_of ps k"
| "property v k = None"

text \<open>\<^verbatim>\<open>Array.prototype.join\<close> on the texts of the elements; \<open>None\<close> is a throw.\<close>

fun joinTexts :: "string option list \<Rightarrow> string option" where
  "joinTexts [] = Some []"
| "joinTexts [t] = t"
| "joinTexts (t # u # us) =
     (case t of
        None \<Rightarrow> None
      | Some a \<Rightarrow> (case joinTexts (u # us) of None \<Rightarrow> None | Some b \<Rightarrow> Some (a @ '','' @ b)))"

text \<open>
  The conversion of a value to a property key (\<^verbatim>\<open>ToPropertyKey\<close>, which for these values
  is \<^verbatim>\<open>ToString\<close>). An array is joined, with the empty text for a \<^verbatim>\<open>null\<close> element. A
  plain object is \<open>[object Object]\<close>, unless it has an own property \<open>toString\<close>: that one
  is not callable, the inherited \<^verbatim>\<open>valueOf\<close> returns the object, and the conversion
  throws a \<^verbatim>\<open>TypeError\<close>, here \<open>None\<close>.
\<close>

fun toText :: "jsvalue \<Rightarrow> string option" where
  "toText VNull = Some ''null''"
| "toText (VBool b) = Some (if b then ''true'' else ''false'')"
| "toText (VNumber t) = Some t"
| "toText (VString s) = Some s"
| "toText (VArray xs) = joinTexts (map (\<lambda>x. if x = VNull then Some [] else toText x) xs)"
| "toText (VObject ps) =
     (if ''toString'' \<in> fst ` set ps then None else Some ''[object Object]'')"

subsection \<open>Counters\<close>

text \<open>
  A \<^verbatim>\<open>Record<string, number>\<close> is an ordinary object: the map holds its own properties,
  and a read of a key it does not own goes on to \<^verbatim>\<open>Object.prototype\<close>. What the module
  stores under a key is a number or, once a built-in was read, a text that is not empty
  (the text of the built-in followed by digits; the model does not keep its characters).
\<close>

datatype cell = Number int | Text

type_synonym counters = "string \<rightharpoonup> cell"

definition objectPrototypeKeys :: "string list" where
  "objectPrototypeKeys =
     [''constructor'', ''__defineGetter__'', ''__defineSetter__'', ''hasOwnProperty'',
      ''__lookupGetter__'', ''__lookupSetter__'', ''isPrototypeOf'',
      ''propertyIsEnumerable'', ''toString'', ''valueOf'', ''__proto__'',
      ''toLocaleString'']"

text \<open>
  \<^verbatim>\<open>m[k] || 0\<close> as the left operand of \<^verbatim>\<open>+\<close>: the own number or text, else for a key of
  \<^verbatim>\<open>Object.prototype\<close> a function or an object, which is truthy and is added as a text,
  else 0.
\<close>

definition count_of :: "counters \<Rightarrow> string \<Rightarrow> cell" where
  "count_of m k =
     (case m k of
        Some c \<Rightarrow> c
      | None \<Rightarrow> if k \<in> set objectPrototypeKeys then Text else Number 0)"

text \<open>\<^verbatim>\<open>c + d\<close> for a number \<open>d\<close>: a sum of numbers, or a longer text.\<close>

definition plus_cell :: "cell \<Rightarrow> int \<Rightarrow> cell" where
  "plus_cell c d = (case c of Number n \<Rightarrow> Number (js_add n d) | Text \<Rightarrow> Text)"

text \<open>
  \<^verbatim>\<open>m[k] = c\<close> for a number or text \<open>c\<close>. The key \<open>__proto__\<close>, unless the object owns
  it (as an object made by \<^verbatim>\<open>JSON.parse\<close> can), is the accessor of
  \<^verbatim>\<open>Object.prototype\<close>, whose setter ignores a value that is not an object.
\<close>

definition set_prop :: "counters \<Rightarrow> string \<Rightarrow> cell \<Rightarrow> counters" where
  "set_prop m k c = (if k = ''__proto__'' \<and> m k = None then m else m(k \<mapsto> c))"

text \<open>\<^verbatim>\<open>m[k] = (m[k] || 0) + d\<close>\<close>

definition add_count :: "counters \<Rightarrow> string \<Rightarrow> int \<Rightarrow> counters" where
  "add_count m k d = set_prop m k (plus_cell (count_of m k) d)"

text \<open>The count under a key when \<^verbatim>\<open>m[k] || 0\<close> is a number.\<close>

definition numberAt :: "counters \<Rightarrow> string \<Rightarrow> int option" where
  "numberAt m k = (case count_of m k of Number n \<Rightarrow> Some n | Text \<Rightarrow> None)"

subsection \<open>The snapshot and the requests\<close>

text \<open>
  \<^verbatim>\<open>tool\<close> is declared a string; the handler stores whatever truthy value
  \<^verbatim>\<open>params.name\<close> is, so the field holds a value.
\<close>

record tool_call =
  tool :: jsvalue
  timestamp :: string
  clientIp :: string
  userAgent :: string

record Analytics =
  serverStartTime :: string
  totalRequests :: int
  totalToolCalls :: int
  requestsByMethod :: counters
  requestsByEndpoint :: counters
  toolCalls :: counters
  recentToolCalls :: "tool_call list"
  clientsByIp :: counters
  clientsByUserAgent :: counters
  hourlyRequests :: counters

definition MAX_RECENT_CALLS :: nat where
  "MAX_RECENT_CALLS = 100"

text \<open>
  The part of an Express request the module reads: \<^verbatim>\<open>req.method\<close>, \<^verbatim>\<open>req.headers\<close>
  (keys in lower case), \<^verbatim>\<open>req.query\<close>, \<^verbatim>\<open>req.ip\<close>, \<^verbatim>\<open>req.socket.remoteAddress\<close> and
  \<^verbatim>\<open>req.body\<close>, whose shape depends on the endpoint.
\<close>

datatype query_value = QString string | QNotString

record 'b request =
  req_method :: string
  headers :: "string \<rightharpoonup> string"
  query :: "string \<rightharpoonup> query_value"
  ip :: "string option"
  remoteAddress :: "string option"
  body :: "'b option"

subsection \<open>String helpers of the runtime\<close>

text \<open>The white space that \<^verbatim>\<open>String.prototype.trim\<close> strips, among the code units below 256.\<close>

definition js_whitespace :: "char \<Rightarrow> bool" where
  "js_whitespace c = (of_char c \<in> {9, 10, 11, 12, 13, 32, 160 :: nat})"

definition trim :: "string \<Rightarrow> string" where
  "trim s = rev (dropWhile js_whitespace (rev (dropWhile js_whitespace s)))"

text \<open>\<^verbatim>\<open>s.split(sep)[0]\<close>: the part of \<open>s\<close> before the first separator.\<close>

definition split_first :: "char \<Rightarrow> string \<Rightarrow> string" where
  "split_first sep s = takeWhile (\<lambda>c. c \<noteq> sep) s"

text \<open>
  \<^verbatim>\<open>a || b || ... || d\<close> over strings that may be undefined: the first operand that is
  neither undefined nor the empty string, else the last one.
\<close>

fun first_truthy :: "string option list \<Rightarrow> string \<Rightarrow> string" where
  "first_truthy [] d = d"
| "first_truthy (None # vs) d = first_truthy vs d"
| "first_truthy (Some s # vs) d = (if s = [] then first_truthy vs d else s)"

subsection \<open>Tracking\<close>

text \<open>
  The client address and the user agent, computed the same way by \<^verbatim>\<open>trackRequest\<close> and
  \<^verbatim>\<open>trackToolCall\<close>:
  \<^verbatim>\<open>(req.headers['x-forwarded-for'] as string)?.split(',')[0]?.trim() || req.ip ||
  req.socket.remoteAddress || 'unknown'\<close> and
  \<^verbatim>\<open>(req.headers['user-agent'] || 'unknown').substring(0, 50)\<close>.
\<close>

definition clientIpOf :: "'b request \<Rightarrow> string" where
  "clientIpOf req =
     first_truthy
       [map_option (\<lambda>h. trim (split_first CHR '','' h)) (headers req ''x-forwarded-for''),
        ip req,
        remoteAddress req]
       ''unknown''"

definition userAgentOf :: "'b request \<Rightarrow> string" where
  "userAgentOf req = take 50 (first_truthy [headers req ''user-agent''] ''unknown'')"

definition trackRequest :: "'b request \<Rightarrow> string \<Rightarrow> string \<Rightarrow> Analytics \<Rightarrow> Analytics" where
  "trackRequest req endpoint now a =
     a\<lparr> totalRequests := js_add (totalRequests a) 1,
        requestsByMethod := add_count (requestsByMethod a) (req_method req) 1,
        requestsByEndpoint := add_count (requestsByEndpoint a) endpoint 1,
        clientsByIp := add_count (clientsByIp a) (clientIpOf req) 1,
        clientsByUserAgent := add_count (clientsByUserAgent a) (userAgentOf req) 1,
        hourlyRequests := add_count (hourlyRequests a) (take 13 now) 1 \<rparr>"

text \<open>The record that \<^verbatim>\<open>trackToolCall\<close> makes of a call, for any value of the name.\<close>

definition toolCallRecord :: "jsvalue \<Rightarrow> 'b request \<Rightarrow> string \<Rightarrow> tool_call" where
  "toolCallRecord name req now =
     \<lparr> tool = name, timestamp = now, clientIp = clientIpOf req,
       userAgent = userAgentOf req \<rparr>"

definition newToolCall :: "string \<Rightarrow> 'b request \<Rightarrow> string \<Rightarrow> tool_call" where
  "newToolCall toolName req now = toolCallRecord (VString toolName) req now"

text \<open>
  \<^verbatim>\<open>trackToolCall\<close> with a name that is a string, as its signature declares.
  \<^verbatim>\<open>unshift\<close> puts the record at the head; \<^verbatim>\<open>pop\<close> removes the last element.
\<close>

definition trackToolCall :: "string \<Rightarrow> 'b request \<Rightarrow> string \<Rightarrow> Analytics \<Rightarrow> Analytics" where
  "trackToolCall toolName req now a =
     (let calls = newToolCall toolName req now # recentToolCalls a
      in a\<lparr> totalToolCalls := js_add (totalToolCalls a) 1,
            toolCalls := add_count (toolCalls a) toolName 1,
            recentToolCalls :=
              (if length calls > MAX_RECENT_CALLS then butlast calls else calls) \<rparr>)"

text \<open>
  \<^verbatim>\<open>trackToolCall\<close> with the value the handler passes, which the body of a request
  decides. The counter of tool calls is incremented first; the use of the name as a
  property key then converts it, and a conversion that throws ends the function there.
  The result is what was thrown, if anything, and the store as the function left it.
\<close>

definition trackToolCallValue ::
  "jsvalue \<Rightarrow> 'b request \<Rightarrow> string \<Rightarrow> Analytics \<Rightarrow> thrown option \<times> Analytics"
where
  "trackToolCallValue name req now a =
     (let a1 = a\<lparr> totalToolCalls := js_add (totalToolCalls a) 1 \<rparr>
      in case toText name of
           None \<Rightarrow> (Some TypeError, a1)
         | Some key \<Rightarrow>
             (let calls = toolCallRecord name req now # recentToolCalls a1
              in (None,
                  a1\<lparr> toolCalls := add_count (toolCalls a1) key 1,
                      recentToolCalls :=
                        (if length calls > MAX_RECENT_CALLS then butlast calls else calls) \<rparr>)))"

text \<open>A run of tool calls, each with its name, its request and the time it was recorded.\<close>

fun trackToolCalls :: "(string \<times> 'b request \<times> string) list \<Rightarrow> Analytics \<Rightarrow> Analytics" where
  "trackToolCalls [] a = a"
| "trackToolCalls ((toolName, req, now) # cs) a =
     trackToolCalls cs (trackToolCall toolName req now a)"

subsection \<open>Persistence\<close>


text \<open>
  The snapshot file holds text. The model keeps what \<^verbatim>\<open>JSON.parse\<close> makes of it: the document
  that \<^verbatim>\<open>JSON.stringify\<close> wrote, read back with the type the cast
  \<^verbatim>\<open>as Analytics\<close> asserts, or \<open>Unparsable\<close> where \<^verbatim>\<open>JSON.parse\<close> throws.
  The last three fields are the environment: whether \<^verbatim>\<open>mkdirSync\<close>,
  \<^verbatim>\<open>writeFileSync\<close> and \<^verbatim>\<open>readFileSync\<close> throw.
\<close>

datatype file_content = Unparsable | Document Analytics

record filesystem =
  dirExists :: bool
  analyticsFile :: "file_content option"
  mkdirThrows :: bool
  writeThrows :: bool
  readThrows :: bool

definition ensureDataDir :: "filesystem \<Rightarrow> thrown + filesystem" where
  "ensureDataDir fs =
     (if \<not> dirExists fs
      then (if mkdirThrows fs then Inl FsError else Inr (fs\<lparr> dirExists := True \<rparr>))
      else Inr fs)"

definition writeFileSync :: "filesystem \<Rightarrow> file_content \<Rightarrow> thrown + filesystem" where
  "writeFileSync fs c =
     (if writeThrows fs then Inl FsError else Inr (fs\<lparr> analyticsFile := Some c \<rparr>))"

definition readFileSync :: "filesystem \<Rightarrow> file_content \<Rightarrow> thrown + file_content" where
  "readFileSync fs c = (if readThrows fs then Inl FsError else Inr c)"

definition JSON_parse :: "file_content \<Rightarrow> thrown + Analytics" where
  "JSON_parse c = (case c of Unparsable \<Rightarrow> Inl JsonSyntaxError | Document d \<Rightarrow> Inr d)"

text \<open>The module's initial value of \<^verbatim>\<open>analytics\<close>.\<close>

definition initialAnalytics :: "string \<Rightarrow> Analytics" where
  "initialAnalytics now =
     \<lparr> serverStartTime = now, totalRequests = 0, totalToolCalls = 0,
       requestsByMethod = Map.empty, requestsByEndpoint = Map.empty, toolCalls = Map.empty,
       recentToolCalls = [], clientsByIp = Map.empty, clientsByUserAgent = Map.empty,
       hourlyRequests = Map.empty \<rparr>"

text \<open>
  \<^verbatim>\<open>loadAnalytics\<close> returns the new value of the global \<^verbatim>\<open>analytics\<close> and the file system.
  Every \<open>Inl\<close> is a throw inside the \<^verbatim>\<open>try\<close>, caught and logged: the global keeps its
  value.
\<close>

definition loadAnalytics :: "string \<Rightarrow> Analytics \<Rightarrow> filesystem \<Rightarrow> Analytics \<times> filesystem" where
  "loadAnalytics now a fs =
     (case ensureDataDir fs of
        Inl e \<Rightarrow> (a, fs)
      | Inr fs1 \<Rightarrow>
          (case analyticsFile fs1 of
             None \<Rightarrow> (a, fs1)
           | Some c \<Rightarrow>
               (case readFileSync fs1 c of
                  Inl e \<Rightarrow> (a, fs1)
                | Inr data \<Rightarrow>
                    (case JSON_parse data of
                       Inl e \<Rightarrow> (a, fs1)
                     | Inr loaded \<Rightarrow>
                         (loaded\<lparr> serverStartTime :=
                             first_truthy [Some (serverStartTime loaded)] now \<rparr>, fs1)))))"

definition saveAnalytics :: "Analytics \<Rightarrow> filesystem \<Rightarrow> filesystem" where
  "saveAnalytics a fs =
     (case ensureDataDir fs of
        Inl e \<Rightarrow> fs
      | Inr fs1 \<Rightarrow>
          (case writeFileSync fs1 (Document a) of
             Inl e \<Rightarrow> fs1
           | Inr fs2 \<Rightarrow> fs2))"

text \<open>
  What holds of the global \<^verbatim>\<open>analytics\<close> from module initialisation on: the start time
  is a time stamp, hence not the empty string.
\<close>

definition started :: "Analytics \<Rightarrow> bool" where
  "started a = (serverStartTime a \<noteq> [])"

section \<open>Responses\<close>

datatype json = JNull | JNum int | JStr string | JObj "(string \<times> json) list"

datatype chunk = Json json | Raw string

record response =
  statusCode :: nat
  headersSent :: bool
  sent :: "chunk list"

definition freshResponse :: response where
  "freshResponse = \<lparr> statusCode = 200, headersSent = False, sent = [] \<rparr>"

definition res_status :: "nat \<Rightarrow> response \<Rightarrow> response" where
  "res_status code res = res\<lparr> statusCode := code \<rparr>"

definition res_json :: "json \<Rightarrow> response \<Rightarrow> response" where
  "res_json v res = res\<lparr> headersSent := True, sent := sent res @ [Json v] \<rparr>"

definition genericServerError :: json where
  "genericServerError =
     JObj [(''id'', JNull), (''jsonrpc'', JStr ''2.0''),
           (''error'', JObj [(''code'', JNum (- 32603)),
                             (''message'', JStr ''Internal server error'')])]"

definition yieldGenericServerError :: "response \<Rightarrow> response" where
  "yieldGenericServerError res = res_json genericServerError (res_status 500 res)"

section \<open>Session registry\<close>

text \<open>
  A \<^verbatim>\<open>StreamableHTTPServerTransport\<close> is an object of the protocol library. The model
  keeps its identity (the number of transports constructed before it) and the two
  options the module constructs it with: \<^verbatim>\<open>sessionIdGenerator\<close> (\<open>None\<close> for
  \<^verbatim>\<open>undefined\<close>) and whether \<^verbatim>\<open>onsessioninitialized\<close> was given.
\<close>

datatype id_generator = RandomUUID

record transport =
  transportId :: nat
  sessionIdGenerator :: "id_generator option"
  hasOnsessioninitialized :: bool

text \<open>
  The body of a protocol request whose \<^verbatim>\<open>method\<close> and \<^verbatim>\<open>params.name\<close> are strings
  or missing, as the protocol and the signature of \<^verbatim>\<open>trackToolCall\<close> have them: the two
  members the dispatcher reads, each \<open>None\<close> when it is missing. \<open>asValue\<close> below is the
  value such a body is.
\<close>

record rpc_body =
  rpc_method :: "string option"
  params_name :: "string option"

text \<open>What the dispatcher did, in order: a ghost field, read by no function.\<close>

datatype event =
  TrackRequest string | TrackToolCall jsvalue | GetTransport | HandleRequest
  | GenericServerError

record server =
  analytics :: Analytics
  transports :: "string \<rightharpoonup> transport"
  constructed :: nat
  events :: "event list"

text \<open>
  The collaborators that are not code of this module. \<open>isListToolsRequest\<close> is
  \<^verbatim>\<open>ListToolsRequestSchema.safeParse(value).success\<close>. \<open>connect t\<close> is
  \<^verbatim>\<open>createMcpServer()\<close> followed by \<^verbatim>\<open>await mcpServer.connect(t)\<close>: \<open>Some e\<close> when
  one of them throws \<open>e\<close>. \<open>handleRequest\<close> is \<^verbatim>\<open>transport.handleRequest(req, res,
  req.body)\<close>: what it throws if it throws, the response as it leaves it, and the
  session id with which the library calls \<^verbatim>\<open>onsessioninitialized\<close>, if it does.
\<close>

record handled =
  threw :: "thrown option"
  responseAfter :: response
  initialized :: "string option"

record 'b collaborators =
  isListToolsRequest :: "'b option \<Rightarrow> bool"
  connect :: "transport \<Rightarrow> thrown option"
  handleRequest :: "transport \<Rightarrow> 'b request \<Rightarrow> response \<Rightarrow> handled"

text \<open>A string that may be undefined, read as a condition.\<close>

definition truthy :: "string option \<Rightarrow> bool" where
  "truthy v = (case v of None \<Rightarrow> False | Some s \<Rightarrow> s \<noteq> [])"

text \<open>\<^verbatim>\<open>new StreamableHTTPServerTransport(options)\<close>, then \<^verbatim>\<open>createMcpServer()\<close> and
  \<^verbatim>\<open>connect\<close>: the new object exists whether or not \<^verbatim>\<open>connect\<close> throws.\<close>

definition newTransport ::
  "'b collaborators \<Rightarrow> id_generator option \<Rightarrow> bool \<Rightarrow> server \<Rightarrow> (thrown + transport) \<times> server"
where
  "newTransport env gen callback s =
     (let t = \<lparr> transportId = constructed s, sessionIdGenerator = gen,
                hasOnsessioninitialized = callback \<rparr>;
          s1 = s\<lparr> constructed := Suc (constructed s) \<rparr>
      in case connect env t of
           Some e \<Rightarrow> (Inl e, s1)
         | None \<Rightarrow> (Inr t, s1))"

definition getTransport ::
  "'b collaborators \<Rightarrow> 'b request \<Rightarrow> server \<Rightarrow> (thrown + transport) \<times> server"
where
  "getTransport env req s =
     (let sessionId = headers req ''mcp-session-id''
      in case (if truthy sessionId then Option.bind sessionId (transports s) else None) of
           Some t \<Rightarrow> (Inr t, s)
         | None \<Rightarrow>
             if \<not> truthy sessionId \<and> isListToolsRequest env (body req)
             then newTransport env None False s
             else newTransport env (Some RandomUUID) True s)"

text \<open>
  The callback \<^verbatim>\<open>onsessioninitialized: (sessionId) => { transports.set(sessionId,
  transport) }\<close> of the transport \<open>t\<close>, called by the library with \<open>sid\<close>; a transport
  constructed without the callback registers nothing.
\<close>

definition onsessioninitialized :: "string \<Rightarrow> transport \<Rightarrow> server \<Rightarrow> server" where
  "onsessioninitialized sid t s =
     (if hasOnsessioninitialized t then s\<lparr> transports := (transports s)(sid \<mapsto> t) \<rparr> else s)"

section \<open>Request dispatcher\<close>

text \<open>
  \<^verbatim>\<open>req.body && req.body.method === 'tools/call' && req.body.params?.name\<close>: the tool name
  when the condition holds.
\<close>

definition toolCallName :: "rpc_body option \<Rightarrow> string option" where
  "toolCallName b =
     (case b of
        None \<Rightarrow> None
      | Some r \<Rightarrow>
          if rpc_method r = Some ''tools/call'' \<and> truthy (params_name r)
          then params_name r else None)"

definition logEvent :: "event \<Rightarrow> server \<Rightarrow> server" where
  "logEvent e s = s\<lparr> events := events s @ [e] \<rparr>"

text \<open>
  The body of the \<^verbatim>\<open>try\<close> in the \<^verbatim>\<open>/mcp\<close> handler: what was thrown if anything, the
  response at that moment, and the state.
\<close>

definition mcpTry ::
  "'b collaborators \<Rightarrow> 'b request \<Rightarrow> response \<Rightarrow> server \<Rightarrow> thrown option \<times> response \<times> server"
where
  "mcpTry env req res s =
     (case getTransport env req (logEvent GetTransport s) of
        (Inl e, s1) \<Rightarrow> (Some e, res, s1)
      | (Inr t, s1) \<Rightarrow>
          (let h = handleRequest env t req res;
               s2 = logEvent HandleRequest s1;
               s3 = (case initialized h of
                       None \<Rightarrow> s2
                     | Some sid \<Rightarrow> onsessioninitialized sid t s2)
           in (threw h, responseAfter h, s3)))"

text \<open>
  The two statements of the \<^verbatim>\<open>/mcp\<close> handler before its \<^verbatim>\<open>try\<close>. \<open>now1\<close> and \<open>now2\<close>
  are the clock as \<^verbatim>\<open>trackRequest\<close> and \<^verbatim>\<open>trackToolCall\<close> read it.
\<close>

definition mcpTrack :: "rpc_body request \<Rightarrow> string \<Rightarrow> string \<Rightarrow> server \<Rightarrow> server" where
  "mcpTrack req now1 now2 s =
     (let s1 = logEvent (TrackRequest ''/mcp'')
                 (s\<lparr> analytics := trackRequest req ''/mcp'' now1 (analytics s) \<rparr>)
      in case toolCallName (body req) of
           None \<Rightarrow> s1
         | Some name \<Rightarrow>
             logEvent (TrackToolCall (VString name))
               (s1\<lparr> analytics := trackToolCall name req now2 (analytics s1) \<rparr>))"

text \<open>The \<^verbatim>\<open>catch\<close> of the \<^verbatim>\<open>/mcp\<close> handler, applied to what its \<^verbatim>\<open>try\<close> gave.\<close>

definition mcpCatch :: "thrown option \<times> response \<times> server \<Rightarrow> response \<times> server" where
  "mcpCatch outcome =
     (case outcome of
        (None, r, s3) \<Rightarrow> (r, s3)
      | (Some e, r, s3) \<Rightarrow>
          if \<not> headersSent r
          then (yieldGenericServerError r, logEvent GenericServerError s3)
          else (r, s3))"

text \<open>
  The \<^verbatim>\<open>/mcp\<close> handler on a body of type \<open>rpc_body\<close>: the tracking, the \<^verbatim>\<open>try\<close> and its
  \<^verbatim>\<open>catch\<close>.
\<close>

definition mcpHandler ::
  "rpc_body collaborators \<Rightarrow> rpc_body request \<Rightarrow> response \<Rightarrow> string \<Rightarrow> string \<Rightarrow> server
     \<Rightarrow> response \<times> server"
where
  "mcpHandler env req res now1 now2 s =
     (case mcpTry env req res (mcpTrack req now1 now2 s) of
        (None, r, s3) \<Rightarrow> (r, s3)
      | (Some e, r, s3) \<Rightarrow>
          if \<not> headersSent r
          then (yieldGenericServerError r, logEvent GenericServerError s3)
          else (r, s3))"

subsection \<open>The handler on any body\<close>

text \<open>
  \<^verbatim>\<open>req.body && req.body.method === 'tools/call' && req.body.params?.name\<close> on whatever
  the body parser made: the name, of any type, when the condition holds.
\<close>

definition toolCallValue :: "jsvalue option \<Rightarrow> jsvalue option" where
  "toolCallValue b =
     (case b of
        None \<Rightarrow> None
      | Some v \<Rightarrow>
          if truthyValue v \<and> property v ''method'' = Some (VString ''tools/call'')
          then (case property v ''params'' of
                  None \<Rightarrow> None
                | Some p \<Rightarrow>
                    (case property p ''name'' of
                       None \<Rightarrow> None
                     | Some n \<Rightarrow> if truthyValue n then Some n else None))
          else None)"

text \<open>
  The \<^verbatim>\<open>/mcp\<close> handler on any body. \<^verbatim>\<open>trackToolCall\<close> runs outside the \<^verbatim>\<open>try\<close>: when it
  throws, the handler's promise is rejected with what it threw (the first component),
  the handler has written nothing, and the transport is never resolved. Otherwise the
  handler goes on as above.
\<close>

definition mcpDispatch ::
  "jsvalue collaborators \<Rightarrow> jsvalue request \<Rightarrow> response \<Rightarrow> string \<Rightarrow> string \<Rightarrow> server
     \<Rightarrow> thrown option \<times> response \<times> server"
where
  "mcpDispatch env req res now1 now2 s =
     (let s1 = logEvent (TrackRequest ''/mcp'')
                 (s\<lparr> analytics := trackRequest req ''/mcp'' now1 (analytics s) \<rparr>)
      in case toolCallValue (body req) of
           None \<Rightarrow> (None, mcpCatch (mcpTry env req res s1))
         | Some name \<Rightarrow>
             (case trackToolCallValue name req now2 (analytics s1) of
                (Some e, a) \<Rightarrow> (Some e, res, s1\<lparr> analytics := a \<rparr>)
              | (None, a) \<Rightarrow>
                  (None,
                   mcpCatch
                     (mcpTry env req res
                        (logEvent (TrackToolCall name) (s1\<lparr> analytics := a \<rparr>))))))"

text \<open>
  A body of type \<open>rpc_body\<close> as a value, a request with another body, and the
  collaborators as they act on bodies of type \<open>rpc_body\<close>.
\<close>

definition asValue :: "rpc_body \<Rightarrow> jsvalue" where
  "asValue b =
     VObject
       ((case rpc_method b of None \<Rightarrow> [] | Some m \<Rightarrow> [(''method'', VString m)])
        @ (case params_name b of
             None \<Rightarrow> []
           | Some n \<Rightarrow> [(''params'', VObject [(''name'', VString n)])]))"

definition withBody :: "'a request \<Rightarrow> 'b option \<Rightarrow> 'b request" where
  "withBody req b =
     \<lparr> req_method = req_method req, headers = headers req, query = query req, ip = ip req,
       remoteAddress = remoteAddress req, body = b \<rparr>"

definition asValueRequest :: "rpc_body request \<Rightarrow> jsvalue request" where
  "asValueRequest req = withBody req (map_option asValue (body req))"

definition onRpcBodies :: "jsvalue collaborators \<Rightarrow> rpc_body collaborators" where
  "onRpcBodies env =
     \<lparr> isListToolsRequest = (\<lambda>b. isListToolsRequest env (map_option asValue b)),
       connect = connect env,
       handleRequest = (\<lambda>t req res. handleRequest env t (asValueRequest req) res) \<rparr>"

section \<open>Import endpoint\<close>

text \<open>
  The body of an import request, with the types the handler's cast \<^verbatim>\<open>count as number\<close>
  assumes and every number an integer: the two totals of \<^verbatim>\<open>summary\<close> and the three
  objects of \<^verbatim>\<open>breakdown\<close>, each as the list \<^verbatim>\<open>Object.entries\<close> makes of it, a key at
  most once. \<open>None\<close> is a missing member.
\<close>

record import_summary =
  summaryTotalRequests :: "int option"
  summaryTotalToolCalls :: "int option"

record import_breakdown =
  byMethod :: "(string \<times> int) list option"
  byEndpoint :: "(string \<times> int) list option"
  byTool :: "(string \<times> int) list option"

record import_data =
  summary :: "import_summary option"
  breakdown :: "import_breakdown option"

text \<open>
  \<^verbatim>\<open>n || 0\<close>, for a number \<open>n\<close> of the body: \<^verbatim>\<open>JSON.parse\<close> has made of the integer in
  the text the nearest double.
\<close>

definition orZero :: "int option \<Rightarrow> int" where
  "orZero n = (case n of None \<Rightarrow> 0 | Some v \<Rightarrow> toDouble v)"

text \<open>\<^verbatim>\<open>for (const [k, count] of Object.entries(o)) m[k] = (m[k] || 0) + count\<close>\<close>

fun mergeCounts :: "counters \<Rightarrow> (string \<times> int) list \<Rightarrow> counters" where
  "mergeCounts m [] = m"
| "mergeCounts m ((k, n) # es) = mergeCounts (add_count m k (toDouble n)) es"

text \<open>\<^verbatim>\<open>if (importData.breakdown?.section) { ... }\<close>\<close>

definition mergeSection ::
  "import_breakdown option \<Rightarrow> (import_breakdown \<Rightarrow> (string \<times> int) list option) \<Rightarrow> counters
     \<Rightarrow> counters"
where
  "mergeSection b section m =
     (case Option.bind b section of None \<Rightarrow> m | Some es \<Rightarrow> mergeCounts m es)"

definition mergeImport :: "import_data \<Rightarrow> Analytics \<Rightarrow> Analytics" where
  "mergeImport importData a =
     (let a1 = (case summary importData of
                  None \<Rightarrow> a
                | Some sm \<Rightarrow>
                    a\<lparr> totalRequests :=
                         js_add (totalRequests a) (orZero (summaryTotalRequests sm)),
                       totalToolCalls :=
                         js_add (totalToolCalls a) (orZero (summaryTotalToolCalls sm)) \<rparr>)
      in a1\<lparr> requestsByMethod :=
               mergeSection (breakdown importData) byMethod (requestsByMethod a1),
             requestsByEndpoint :=
               mergeSection (breakdown importData) byEndpoint (requestsByEndpoint a1),
             toolCalls := mergeSection (breakdown importData) byTool (toolCalls a1) \<rparr>)"

text \<open>
  The handler of \<^verbatim>\<open>POST /analytics/import\<close>. \<open>importKeyEnv\<close> is
  \<^verbatim>\<open>process.env.ANALYTICS_IMPORT_KEY\<close>. With no body, the read of
  \<^verbatim>\<open>importData.summary\<close> throws, and the \<^verbatim>\<open>catch\<close> answers 400 with the error as text.
\<close>

definition analyticsImport ::
  "string option \<Rightarrow> import_data request \<Rightarrow> response \<Rightarrow> Analytics \<Rightarrow> filesystem
     \<Rightarrow> response \<times> Analytics \<times> filesystem"
where
  "analyticsImport importKeyEnv req res a fs =
     (if truthy importKeyEnv \<and> query req ''key'' \<noteq> map_option QString importKeyEnv
      then (res_json (JObj [(''error'', JStr ''Invalid import key'')]) (res_status 403 res),
            a, fs)
      else
        (case body req of
           None \<Rightarrow>
             (res_json (JObj [(''error'', JStr ''Failed to import analytics''),
                              (''details'', JStr ''TypeError'')]) (res_status 400 res),
              a, fs)
         | Some importData \<Rightarrow>
             (let a1 = mergeImport importData a;
                  fs1 = saveAnalytics a1 fs
              in (res_json
                    (JObj [(''message'', JStr ''Analytics imported successfully''),
                           (''currentStats'',
                            JObj [(''totalRequests'', JNum (totalRequests a1)),
                                  (''totalToolCalls'', JNum (totalToolCalls a1))])]) res,
                  a1, fs1))))"

section \<open>Example inputs\<close>

text \<open>A tool call behind a proxy, and a request that names neither its agent nor its address.\<close>

definition toolRequest :: "rpc_body request" where
  "toolRequest =
     \<lparr> req_method = ''POST'',
       headers = [''user-agent'' \<mapsto> ''curl/8.5.0'', ''x-forwarded-for'' \<mapsto> '' 203.0.113.7 , 10.0.0.1''],
       query = Map.empty,
       ip = Some ''10.0.0.1'',
       remoteAddress = Some ''10.0.0.1'',
       body = Some \<lparr> rpc_method = Some ''tools/call'', params_name = Some ''brave_web_search'' \<rparr> \<rparr>"


definition oldCall :: tool_call where
  "oldCall =
     \<lparr> tool = VString ''brave_news_search'', timestamp = ''2024-05-01T09:00:00.000Z'',
       clientIp = ''198.51.100.4'', userAgent = ''node'' \<rparr>"

text \<open>A store whose list of recent calls is full.\<close>

definition fullAnalytics :: Analytics where
  "fullAnalytics =
     (initialAnalytics ''2024-05-01T08:00:00.000Z'')\<lparr> recentToolCalls := replicate 100 oldCall \<rparr>"

text \<open>
  A protocol library that accepts every connection, takes a body for the discovery
  request when its method is \<^verbatim>\<open>tools/list\<close>, answers every request and initialises
  no session.
\<close>

definition answeringLibrary :: "rpc_body collaborators" where
  "answeringLibrary =
     \<lparr> isListToolsRequest =
         (\<lambda>b. case b of None \<Rightarrow> False | Some r \<Rightarrow> rpc_method r = Some ''tools/list''),
       connect = (\<lambda>t. None),
       handleRequest =
         (\<lambda>t req res.
            \<lparr> threw = None,
              responseAfter = res_json (JObj [(''jsonrpc'', JStr ''2.0'')]) res,
              initialized = None \<rparr>) \<rparr>"

definition emptyServer :: server where
  "emptyServer =
     \<lparr> analytics = initialAnalytics ''2024-05-01T08:00:00.000Z'', transports = Map.empty,
       constructed = 0, events = [] \<rparr>"

text \<open>A discovery request with no session header, and one that names a session nobody knows.\<close>

definition discoveryRequest :: "rpc_body request" where
  "discoveryRequest =
     \<lparr> req_method = ''POST'', headers = [''user-agent'' \<mapsto> ''inspector''],
       query = Map.empty, ip = Some ''10.0.0.9'', remoteAddress = Some ''10.0.0.9'',
       body = Some \<lparr> rpc_method = Some ''tools/list'', params_name = None \<rparr> \<rparr>"

definition staleRequest :: "rpc_body request" where
  "staleRequest =
     discoveryRequest\<lparr> headers := [''mcp-session-id'' \<mapsto> ''stale-session''] \<rparr>"

text \<open>The discovery request again, with a session header that is present and empty.\<close>

definition emptyHeaderRequest :: "rpc_body request" where
  "emptyHeaderRequest = discoveryRequest\<lparr> headers := [''mcp-session-id'' \<mapsto> []] \<rparr>"

text \<open>A server with one session, and a request that resumes it.\<close>

definition firstTransport :: transport where
  "firstTransport =
     \<lparr> transportId = 0, sessionIdGenerator = Some RandomUUID, hasOnsessioninitialized = True \<rparr>"

definition oneSessionServer :: server where
  "oneSessionServer =
     emptyServer\<lparr> transports := [''6f1c2a9e'' \<mapsto> firstTransport], constructed := 1 \<rparr>"

definition resumingRequest :: "rpc_body request" where
  "resumingRequest = toolRequest\<lparr> headers := [''mcp-session-id'' \<mapsto> ''6f1c2a9e''] \<rparr>"

text \<open>
  Three libraries that fail: one whose \<^verbatim>\<open>connect\<close> is rejected, one whose
  \<^verbatim>\<open>handleRequest\<close> throws before it sends anything, and one whose \<^verbatim>\<open>handleRequest\<close>
  throws after it has sent the headers and a first event of a stream.
\<close>

definition refusingLibrary :: "rpc_body collaborators" where
  "refusingLibrary =
     answeringLibrary\<lparr> connect := (\<lambda>t. Some (CollaboratorError ''connect refused'')) \<rparr>"

definition failingLibrary :: "rpc_body collaborators" where
  "failingLibrary =
     answeringLibrary
       \<lparr> handleRequest :=
           (\<lambda>t req res.
              \<lparr> threw = Some (CollaboratorError ''handler failed''), responseAfter = res,
                initialized = None \<rparr>) \<rparr>"

definition interruptedLibrary :: "rpc_body collaborators" where
  "interruptedLibrary =
     answeringLibrary
       \<lparr> handleRequest :=
           (\<lambda>t req res.
              \<lparr> threw = Some (CollaboratorError ''stream broken''),
                responseAfter = res\<lparr> headersSent := True, sent := sent res @ [Raw ''event: message''] \<rparr>,
                initialized = None \<rparr>) \<rparr>"

text \<open>
  A store that has counted three calls of one tool, an import that brings five more, and
  a data directory that works.
\<close>

definition searchAnalytics :: Analytics where
  "searchAnalytics =
     (initialAnalytics ''2024-05-01T08:00:00.000Z'')
       \<lparr> totalToolCalls := 3, toolCalls := [''search'' \<mapsto> Number 3] \<rparr>"

definition searchImport :: "import_data request" where
  "searchImport =
     \<lparr> req_method = ''POST'', headers = Map.empty, query = [''key'' \<mapsto> QString ''guess''],
       ip = Some ''10.0.0.2'', remoteAddress = Some ''10.0.0.2'',
       body = Some \<lparr> summary = None,
                     breakdown = Some \<lparr> byMethod = None, byEndpoint = None,
                                        byTool = Some [(''search'', 5)] \<rparr> \<rparr> \<rparr>"

definition workingDisk :: filesystem where
  "workingDisk =
     \<lparr> dirExists = True, analyticsFile = None, mkdirThrows = False, writeThrows = False,
       readThrows = False \<rparr>"

text \<open>
  The answering library on bodies of any type, and a tool call whose name is an object
  with a property \<open>toString\<close>.
\<close>

definition valueLibrary :: "jsvalue collaborators" where
  "valueLibrary =
     \<lparr> isListToolsRequest =
         (\<lambda>b. case b of
                None \<Rightarrow> False
              | Some v \<Rightarrow> property v ''method'' = Some (VString ''tools/list'')),
       connect = (\<lambda>t. None),
       handleRequest =
         (\<lambda>t req res.
            \<lparr> threw = None,
              responseAfter = res_json (JObj [(''jsonrpc'', JStr ''2.0'')]) res,
              initialized = None \<rparr>) \<rparr>"

definition oddNameRequest :: "jsvalue request" where
  "oddNameRequest =
     \<lparr> req_method = ''POST'', headers = [''user-agent'' \<mapsto> ''curl/8.5.0''],
       query = Map.empty, ip = Some ''10.0.0.1'', remoteAddress = Some ''10.0.0.1'',
       body =
         Some (VObject
           [(''method'', VString ''tools/call''),
            (''params'', VObject [(''name'', VObject [(''toString'', VNull)])])]) \<rparr>"

text \<open>
  An import of five calls under the key \<open>__proto__\<close>, and a store whose request counter
  has reached \<open>2 ^ 53\<close> with an import of one more request.
\<close>

definition protoImport :: "import_data request" where
  "protoImport =
     \<lparr> req_method = ''POST'', headers = Map.empty, query = Map.empty,
       ip = Some ''10.0.0.2'', remoteAddress = Some ''10.0.0.2'',
       body = Some \<lparr> summary = None,
                     breakdown = Some \<lparr> byMethod = None, byEndpoint = None,
                                        byTool = Some [(''__proto__'', 5)] \<rparr> \<rparr> \<rparr>"

definition saturatedAnalytics :: Analytics where
  "saturatedAnalytics =
     (initialAnalytics ''2024-05-01T08:00:00.000Z'')\<lparr> totalRequests := 2 ^ 53 \<rparr>"

definition oneMoreImport :: "import_data request" where
  "oneMoreImport =
     \<lparr> req_method = ''POST'', headers = Map.empty, query = Map.empty,
       ip = Some ''10.0.0.2'', remoteAddress = Some ''10.0.0.2'',
       body = Some \<lparr> summary = Some \<lparr> summaryTotalRequests = Some 1,
                                      summaryTotalToolCalls = None \<rparr>,
                     breakdown = None \<rparr> \<rparr>"

section \<open>Arithmetic of the counters\<close>

declare bitlen.simps [simp del]

lemma roundNat_53: "roundNat (2 ^ 53) = 2 ^ 53"
  by (simp add: roundNat_def bitlen.simps Let_def)

lemma roundNat_exact: "n \<le> 2 ^ 53 \<Longrightarrow> roundNat n = n"
proof (cases "n = 2 ^ 53")
  case True
  then show ?thesis by (simp only: roundNat_53)
next
  case False
  assume "n \<le> 2 ^ 53"
  with False have "n < 2 ^ 53" by simp
  then show ?thesis by (simp add: roundNat_def)
qed

text \<open>Up to \<open>2 ^ 53\<close> in absolute value every integer is a double and every sum is exact.\<close>

lemma toDouble_exact: "\<bar>x\<bar> \<le> 2 ^ 53 \<Longrightarrow> toDouble x = x"
proof -
  assume a: "\<bar>x\<bar> \<le> 2 ^ 53"
  show ?thesis
  proof (cases "x < 0")
    case True
    then have "nat (- x) \<le> 2 ^ 53" using a by (simp add: nat_le_iff)
    then have "roundNat (nat (- x)) = nat (- x)" by (rule roundNat_exact)
    then show ?thesis using True by (simp add: toDouble_def)
  next
    case False
    then have "nat x \<le> 2 ^ 53" using a by (simp add: nat_le_iff)
    then have "roundNat (nat x) = nat x" by (rule roundNat_exact)
    then show ?thesis using False by (simp add: toDouble_def)
  qed
qed

lemma js_add_exact: "\<bar>x + y\<bar> \<le> 2 ^ 53 \<Longrightarrow> js_add x y = x + y"
  by (simp add: js_add_def toDouble_exact)

text \<open>Beyond it they are not: one more than \<open>2 ^ 53\<close> is \<open>2 ^ 53\<close> again.\<close>

lemma js_add_absorbed: "js_add (2 ^ 53) 1 = 2 ^ 53"
  by (simp add: js_add_def toDouble_def roundNat_def bitlen.simps Let_def)

section \<open>The list of recent tool calls\<close>

lemma recent_trackToolCall:
  "recentToolCalls (trackToolCall n req now a) =
     (if length (recentToolCalls a) \<ge> MAX_RECENT_CALLS
      then butlast (newToolCall n req now # recentToolCalls a)
      else newToolCall n req now # recentToolCalls a)"
  by (simp add: trackToolCall_def Let_def MAX_RECENT_CALLS_def)

lemma recent_trackToolCall_take:
  assumes "length (recentToolCalls a) \<le> MAX_RECENT_CALLS"
  shows "recentToolCalls (trackToolCall n req now a) =
           take MAX_RECENT_CALLS (newToolCall n req now # recentToolCalls a)"
  using assms
  by (auto simp add: recent_trackToolCall butlast_conv_take MAX_RECENT_CALLS_def)

lemma take_append_take: "take n (ys @ take n zs) = take n (ys @ zs)"
  by (simp add: min_def)

text \<open>The bound is kept by every call, so a run of calls keeps the newest entries.\<close>

lemma recent_trackToolCalls_take:
  "length (recentToolCalls a) \<le> MAX_RECENT_CALLS \<Longrightarrow>
   recentToolCalls (trackToolCalls cs a) =
     take MAX_RECENT_CALLS
       (rev (map (\<lambda>(n, req, now). newToolCall n req now) cs) @ recentToolCalls a)"
proof (induction cs arbitrary: a)
  case Nil
  then show ?case by simp
next
  case (Cons c cs)
  obtain n req now where c: "c = (n, req, now)" by (cases c) auto
  let ?a = "trackToolCall n req now a"
  have step: "recentToolCalls ?a = take MAX_RECENT_CALLS (newToolCall n req now # recentToolCalls a)"
    using Cons.prems by (rule recent_trackToolCall_take)
  then have "length (recentToolCalls ?a) \<le> MAX_RECENT_CALLS" by simp
  from Cons.IH[OF this] show ?case
    unfolding c by (simp add: step take_append_take del: take_append)
qed

text \<open>
  Claim C1. From a store whose list of recent calls has at most 100 entries,
  \<^verbatim>\<open>trackToolCall\<close> puts the new record \<open>{tool, timestamp, clientIp, userAgent}\<close> at the
  head and keeps the first 100 entries of the result: a list that was full loses its last
  (oldest) entry, a shorter one loses nothing. After any run of calls the list holds the
  newest 100 records of the run followed by the old ones, newest first, so from the 100th
  call of a run on it holds records of the run only.
\<close>

theorem recentToolCalls_bounded:
  assumes "length (recentToolCalls a) \<le> MAX_RECENT_CALLS"
  shows "MAX_RECENT_CALLS = 100
    \<and> recentToolCalls (trackToolCall toolName req now a) =
        take MAX_RECENT_CALLS (newToolCall toolName req now # recentToolCalls a)
    \<and> recentToolCalls (trackToolCall toolName req now a) =
        (if length (recentToolCalls a) = MAX_RECENT_CALLS
         then newToolCall toolName req now # butlast (recentToolCalls a)
         else newToolCall toolName req now # recentToolCalls a)
    \<and> length (recentToolCalls (trackToolCall toolName req now a)) \<le> MAX_RECENT_CALLS
    \<and> recentToolCalls (trackToolCalls cs a) =
        take MAX_RECENT_CALLS
          (rev (map (\<lambda>(n, r, t). newToolCall n r t) cs) @ recentToolCalls a)
    \<and> length (recentToolCalls (trackToolCalls cs a)) \<le> MAX_RECENT_CALLS"
proof -
  have one: "recentToolCalls (trackToolCall toolName req now a) =
        take MAX_RECENT_CALLS (newToolCall toolName req now # recentToolCalls a)"
    using assms by (rule recent_trackToolCall_take)
  have shape: "recentToolCalls (trackToolCall toolName req now a) =
        (if length (recentToolCalls a) = MAX_RECENT_CALLS
         then newToolCall toolName req now # butlast (recentToolCalls a)
         else newToolCall toolName req now # recentToolCalls a)"
    using assms
    by (cases "recentToolCalls a = []")
      (auto simp add: recent_trackToolCall MAX_RECENT_CALLS_def)
  have many: "recentToolCalls (trackToolCalls cs a) =
        take MAX_RECENT_CALLS
          (rev (map (\<lambda>(n, r, t). newToolCall n r t) cs) @ recentToolCalls a)"
    using assms by (rule recent_trackToolCalls_take)
  show ?thesis
    using one shape many by (simp add: MAX_RECENT_CALLS_def)
qed

theorem recentToolCalls_bounded_witness:
  "length (recentToolCalls fullAnalytics) \<le> MAX_RECENT_CALLS
   \<and> recentToolCalls
        (trackToolCall ''brave_web_search'' toolRequest ''2024-05-01T10:15:00.000Z'' fullAnalytics) =
      \<lparr> tool = VString ''brave_web_search'', timestamp = ''2024-05-01T10:15:00.000Z'',
        clientIp = ''203.0.113.7'', userAgent = ''curl/8.5.0'' \<rparr> # replicate 99 oldCall"
  using recentToolCalls_bounded
    [of fullAnalytics "''brave_web_search''" toolRequest "''2024-05-01T10:15:00.000Z''" "[]"]
  by (simp add: fullAnalytics_def MAX_RECENT_CALLS_def newToolCall_def toolCallRecord_def
      toolRequest_def
      clientIpOf_def userAgentOf_def trim_def split_first_def js_whitespace_def)

section \<open>What a counter object stores\<close>

lemma add_count_other: "k' \<noteq> k \<Longrightarrow> add_count m k d k' = m k'"
  by (simp add: add_count_def set_prop_def)



text \<open>Where \<^verbatim>\<open>m[k] || 0\<close> is a number, the key holds the sum afterwards.\<close>

lemma add_count_number:
  assumes "numberAt m k = Some c"
  shows "add_count m k d k = Some (Number (js_add c d))"
proof -
  have c: "count_of m k = Number c"
    using assms by (simp add: numberAt_def split: cell.splits)
  have "\<not> (k = ''__proto__'' \<and> m k = None)"
    using c by (auto simp add: count_of_def objectPrototypeKeys_def split: option.splits)
  then show ?thesis
    using c by (auto simp add: add_count_def set_prop_def plus_cell_def)
qed

text \<open>The key \<open>__proto__\<close> is not stored in an object that does not own it.\<close>

lemma add_count_proto: "m ''__proto__'' = None \<Longrightarrow> add_count m ''__proto__'' d = m"
  by (simp add: add_count_def set_prop_def)

text \<open>Another key of \<^verbatim>\<open>Object.prototype\<close> gets a text at the first count.\<close>

lemma add_count_inherited:
  assumes "k \<in> set objectPrototypeKeys" and "k \<noteq> ''__proto__''" and "m k = None"
  shows "add_count m k d k = Some Text"
  using assms by (simp add: add_count_def set_prop_def count_of_def plus_cell_def)

section \<open>The keys under which clients are counted\<close>









section \<open>Resolving a session\<close>

lemma getTransport_known:
  assumes "headers req ''mcp-session-id'' = Some sid" "sid \<noteq> []" "transports s sid = Some t"
  shows "getTransport env req s = (Inr t, s)"
  using assms by (simp add: getTransport_def truthy_def)

text \<open>
  Claim C3. When the session header carries a session id (a non-empty string, as every
  id the library generates is) that the session map holds, \<^verbatim>\<open>getTransport\<close> returns the
  transport registered under it and leaves the whole state as it was: the map is
  unchanged and no transport is constructed. Resolving again from the resulting state
  gives the same transport and the same state.
\<close>

theorem known_session_resolves_idempotently:
  assumes "headers req ''mcp-session-id'' = Some sid" and "sid \<noteq> []"
    and "transports s sid = Some t"
  shows "getTransport env req s = (Inr t, s)
    \<and> getTransport env req (snd (getTransport env req s)) = (Inr t, s)"
  using assms by (simp add: getTransport_known)

theorem known_session_resolves_idempotently_witness:
  "headers resumingRequest ''mcp-session-id'' = Some ''6f1c2a9e'' \<and> ''6f1c2a9e'' \<noteq> []
   \<and> transports oneSessionServer ''6f1c2a9e'' = Some firstTransport
   \<and> getTransport answeringLibrary resumingRequest oneSessionServer =
       (Inr firstTransport, oneSessionServer)"
proof -
  have h: "headers resumingRequest ''mcp-session-id'' = Some ''6f1c2a9e''"
    by (simp add: resumingRequest_def)
  have k: "transports oneSessionServer ''6f1c2a9e'' = Some firstTransport"
    by (simp add: oneSessionServer_def)
  show ?thesis
    using h k known_session_resolves_idempotently [OF h _ k, of answeringLibrary] by simp
qed

lemma newTransport_result:
  "newTransport env gen cb s =
     (let t = \<lparr> transportId = constructed s, sessionIdGenerator = gen,
                hasOnsessioninitialized = cb \<rparr>
      in ((case connect env t of Some e \<Rightarrow> Inl e | None \<Rightarrow> Inr t),
          s\<lparr> constructed := Suc (constructed s) \<rparr>))"
  by (simp add: newTransport_def Let_def split: option.split)

lemma getTransport_discovery:
  assumes "\<not> truthy (headers req ''mcp-session-id'')" "isListToolsRequest env (body req)"
  shows "getTransport env req s = newTransport env None False s"
  using assms by (simp add: getTransport_def)

lemma getTransport_unknown:
  assumes "headers req ''mcp-session-id'' = Some sid" "sid \<noteq> []" "transports s sid = None"
  shows "getTransport env req s = newTransport env (Some RandomUUID) True s"
  using assms by (simp add: getTransport_def truthy_def)

lemma getTransport_frame:
  "analytics (snd (getTransport env req s)) = analytics s
   \<and> events (snd (getTransport env req s)) = events s
   \<and> transports (snd (getTransport env req s)) = transports s"
  by (simp add: getTransport_def newTransport_def Let_def split: option.split)

lemma onsessioninitialized_frame:
  "analytics (onsessioninitialized sid t s) = analytics s
   \<and> events (onsessioninitialized sid t s) = events s"
  by (simp add: onsessioninitialized_def)

lemma mcpTrack_frame:
  "transports (mcpTrack req now1 now2 s) = transports s
   \<and> constructed (mcpTrack req now1 now2 s) = constructed s"
  by (simp add: mcpTrack_def logEvent_def Let_def split: option.split)

lemma logEvent_frame:
  "transports (logEvent e s) = transports s \<and> constructed (logEvent e s) = constructed s
   \<and> analytics (logEvent e s) = analytics s \<and> events (logEvent e s) = events s @ [e]"
  by (simp add: logEvent_def)

lemmas example_defs =
  toolRequest_def emptyServer_def answeringLibrary_def failingLibrary_def
  interruptedLibrary_def refusingLibrary_def freshResponse_def discoveryRequest_def
  staleRequest_def emptyHeaderRequest_def

lemmas dispatcher_defs =
  mcpHandler_def mcpTry_def mcpTrack_def getTransport_def newTransport_def logEvent_def
  toolCallName_def truthy_def onsessioninitialized_def yieldGenericServerError_def
  res_json_def res_status_def Let_def

lemma mcpTry_cases:
  "mcpTry env req res s =
     (case getTransport env req (logEvent GetTransport s) of
        (Inl e, s1) \<Rightarrow> (Some e, res, s1)
      | (Inr t, s1) \<Rightarrow>
          (threw (handleRequest env t req res), responseAfter (handleRequest env t req res),
           (case initialized (handleRequest env t req res) of
              None \<Rightarrow> logEvent HandleRequest s1
            | Some sid \<Rightarrow> onsessioninitialized sid t (logEvent HandleRequest s1))))"
  by (simp add: mcpTry_def Let_def split: prod.split sum.split)

lemma mcpHandler_response:
  "fst (mcpHandler env req res now1 now2 s) =
     (case mcpTry env req res (mcpTrack req now1 now2 s) of
        (None, r, s3) \<Rightarrow> r
      | (Some e, r, s3) \<Rightarrow> if headersSent r then r else yieldGenericServerError r)"
  by (simp add: mcpHandler_def split: prod.split option.split)

lemma yieldGenericServerError_eq:
  "yieldGenericServerError r =
     r\<lparr> statusCode := 500, headersSent := True, sent := sent r @ [Json genericServerError] \<rparr>"
  by (simp add: yieldGenericServerError_def res_json_def res_status_def)

lemma mcpTrack_analytics:
  "analytics (mcpTrack req now1 now2 s) =
     (case toolCallName (body req) of
        None \<Rightarrow> trackRequest req ''/mcp'' now1 (analytics s)
      | Some name \<Rightarrow> trackToolCall name req now2 (trackRequest req ''/mcp'' now1 (analytics s)))"
  by (simp add: mcpTrack_def logEvent_def Let_def split: option.split)

lemma mcpTrack_events:
  "events (mcpTrack req now1 now2 s) =
     events s @ [TrackRequest ''/mcp'']
       @ (case toolCallName (body req) of
            None \<Rightarrow> []
          | Some name \<Rightarrow> [TrackToolCall (VString name)])"
  by (simp add: mcpTrack_def logEvent_def Let_def split: option.split)

lemma mcpTry_analytics: "analytics (snd (snd (mcpTry env req res s))) = analytics s"
proof -
  obtain x s1 where g: "getTransport env req (logEvent GetTransport s) = (x, s1)"
    by (cases "getTransport env req (logEvent GetTransport s)")
  have "analytics s1 = analytics s"
    using getTransport_frame [of env req "logEvent GetTransport s"] g
    by (simp add: logEvent_frame)
  then show ?thesis
    using g
    by (simp add: mcpTry_cases onsessioninitialized_frame logEvent_frame
        split: sum.split option.split)
qed

lemma mcpTry_events:
  "events (snd (snd (mcpTry env req res s))) = events s @ [GetTransport]
   \<or> events (snd (snd (mcpTry env req res s))) = events s @ [GetTransport, HandleRequest]"
proof -
  obtain x s1 where g: "getTransport env req (logEvent GetTransport s) = (x, s1)"
    by (cases "getTransport env req (logEvent GetTransport s)")
  have "events s1 = events s @ [GetTransport]"
    using getTransport_frame [of env req "logEvent GetTransport s"] g
    by (simp add: logEvent_frame)
  then show ?thesis
    using g
    by (simp add: mcpTry_cases onsessioninitialized_frame logEvent_frame
        split: sum.split option.split)
qed

lemma mcpHandler_state:
  "snd (mcpHandler env req res now1 now2 s) = snd (snd (mcpTry env req res (mcpTrack req now1 now2 s)))
   \<or> snd (mcpHandler env req res now1 now2 s) =
       logEvent GenericServerError (snd (snd (mcpTry env req res (mcpTrack req now1 now2 s))))"
  by (simp add: mcpHandler_def split: prod.split option.split)

text \<open>
  Claim C4. For a request with no session header (missing, or empty) whose body the
  library's schema accepts as the list-tools request, \<^verbatim>\<open>getTransport\<close> constructs a new
  transport with \<^verbatim>\<open>sessionIdGenerator: undefined\<close> and no registration callback, and
  returns it once \<^verbatim>\<open>connect\<close> has completed (it throws what \<^verbatim>\<open>connect\<close> throws
  otherwise). The session map is the same after \<^verbatim>\<open>getTransport\<close> as before, so its size
  is unchanged; a later call of the registration callback for this transport would
  register nothing, and the map is still the same after the whole dispatch of the request.
\<close>

theorem discovery_creates_unregistered_handler:
  assumes "\<not> truthy (headers req ''mcp-session-id'')"
    and "isListToolsRequest env (body req)"
  shows "(let t = \<lparr> transportId = constructed s, sessionIdGenerator = None,
                   hasOnsessioninitialized = False \<rparr>
          in getTransport env req s =
               ((case connect env t of Some e \<Rightarrow> Inl e | None \<Rightarrow> Inr t),
                s\<lparr> constructed := Suc (constructed s) \<rparr>)
             \<and> onsessioninitialized sid t s' = s')
    \<and> transports (snd (getTransport env req s)) = transports s
    \<and> transports (snd (mcpHandler env req res now1 now2 s)) = transports s"
proof -
  let ?t = "\<lparr> transportId = constructed s, sessionIdGenerator = None,
              hasOnsessioninitialized = False \<rparr>"
  have g: "\<And>s. getTransport env req s = newTransport env None False s"
    using assms by (rule getTransport_discovery)
  have a: "getTransport env req s =
               ((case connect env ?t of Some e \<Rightarrow> Inl e | None \<Rightarrow> Inr ?t),
                s\<lparr> constructed := Suc (constructed s) \<rparr>)"
    by (simp add: g newTransport_result Let_def)
  have b: "onsessioninitialized sid ?t s' = s'"
    by (simp add: onsessioninitialized_def)
  have c: "transports (snd (getTransport env req s)) = transports s"
    by (simp add: getTransport_frame)
  have d: "transports (snd (snd (mcpTry env req res (mcpTrack req now1 now2 s)))) = transports s"
    by (simp add: mcpTry_cases g newTransport_result Let_def logEvent_frame mcpTrack_frame
        onsessioninitialized_def split: option.split)
  have e: "transports (snd (mcpHandler env req res now1 now2 s)) = transports s"
    using mcpHandler_state [of env req res now1 now2 s] d by (auto simp add: logEvent_frame)
  show ?thesis
    using a b c e by (simp add: Let_def)
qed

theorem discovery_creates_unregistered_handler_witness:
  "\<not> truthy (headers discoveryRequest ''mcp-session-id'')
   \<and> isListToolsRequest answeringLibrary (body discoveryRequest)
   \<and> getTransport answeringLibrary discoveryRequest emptyServer =
       (Inr \<lparr> transportId = 0, sessionIdGenerator = None, hasOnsessioninitialized = False \<rparr>,
        emptyServer\<lparr> constructed := 1 \<rparr>)
   \<and> dom (transports (snd (getTransport answeringLibrary discoveryRequest emptyServer))) = {}"
proof -
  have h1: "\<not> truthy (headers discoveryRequest ''mcp-session-id'')"
    by (simp add: discoveryRequest_def truthy_def)
  have h2: "isListToolsRequest answeringLibrary (body discoveryRequest)"
    by (simp add: discoveryRequest_def answeringLibrary_def)
  show ?thesis
    using h1 h2
      discovery_creates_unregistered_handler [OF h1 h2, of emptyServer "''x''" emptyServer
        freshResponse "[]" "[]"]
    by (simp add: Let_def emptyServer_def answeringLibrary_def)
qed

text \<open>
  Claim C5, as the code has it. For a request whose session header is present, not empty
  and not a key of the session map, \<^verbatim>\<open>getTransport\<close> takes the new-session branch whatever
  the body is: it constructs a new transport with the \<^verbatim>\<open>randomUUID\<close> generator and the
  registration callback, never the transport of the discovery path, and the header's
  value appears nowhere in the result. It throws only what \<^verbatim>\<open>connect\<close> throws. The
  session map is unchanged when \<^verbatim>\<open>getTransport\<close> returns: the pair is registered when
  the library calls the callback, under the id the library passes.
\<close>

theorem unknown_session_starts_new_transport:
  assumes "headers req ''mcp-session-id'' = Some sid" and "sid \<noteq> []"
    and "transports s sid = None"
  shows "(let t = \<lparr> transportId = constructed s, sessionIdGenerator = Some RandomUUID,
                   hasOnsessioninitialized = True \<rparr>
          in getTransport env req s =
               ((case connect env t of Some e \<Rightarrow> Inl e | None \<Rightarrow> Inr t),
                s\<lparr> constructed := Suc (constructed s) \<rparr>)
             \<and> transports (onsessioninitialized generated t s') = (transports s')(generated \<mapsto> t))
    \<and> transports (snd (getTransport env req s)) = transports s"
  using assms
  by (simp add: getTransport_unknown newTransport_result Let_def onsessioninitialized_def
      getTransport_frame)

theorem unknown_session_starts_new_transport_witness:
  "headers staleRequest ''mcp-session-id'' = Some ''stale-session'' \<and> ''stale-session'' \<noteq> []
   \<and> transports emptyServer ''stale-session'' = None
   \<and> isListToolsRequest answeringLibrary (body staleRequest)
   \<and> getTransport answeringLibrary staleRequest emptyServer =
       (Inr \<lparr> transportId = 0, sessionIdGenerator = Some RandomUUID,
              hasOnsessioninitialized = True \<rparr>,
        emptyServer\<lparr> constructed := 1 \<rparr>)"
proof -
  have h: "headers staleRequest ''mcp-session-id'' = Some ''stale-session''"
    by (simp add: staleRequest_def)
  have k: "transports emptyServer ''stale-session'' = None"
    by (simp add: emptyServer_def)
  have b: "isListToolsRequest answeringLibrary (body staleRequest)"
    by (simp add: staleRequest_def discoveryRequest_def answeringLibrary_def)
  show ?thesis
    using h k b
      unknown_session_starts_new_transport [OF h _ k, of answeringLibrary "''x''" emptyServer]
    by (simp add: Let_def emptyServer_def answeringLibrary_def)
qed

text \<open>
  Claim C5 as it was stated fails on two requests with the discovery body, resolved by
  an empty registry. The header of the first is present and empty: the request takes the
  discovery path and gets a transport with no generator. The header of the second names
  an unknown session: the request gets a new-session transport, and the registry is
  still empty when \<^verbatim>\<open>getTransport\<close> has returned.
\<close>

theorem unknown_session_counterexample:
  "headers emptyHeaderRequest ''mcp-session-id'' = Some []
   \<and> transports emptyServer [] = None
   \<and> fst (getTransport answeringLibrary emptyHeaderRequest emptyServer) =
       Inr \<lparr> transportId = 0, sessionIdGenerator = None, hasOnsessioninitialized = False \<rparr>
   \<and> headers staleRequest ''mcp-session-id'' = Some ''stale-session''
   \<and> fst (getTransport answeringLibrary staleRequest emptyServer) =
       Inr \<lparr> transportId = 0, sessionIdGenerator = Some RandomUUID,
              hasOnsessioninitialized = True \<rparr>
   \<and> dom (transports (snd (getTransport answeringLibrary staleRequest emptyServer))) = {}"
  by (simp add: dispatcher_defs example_defs)

section \<open>Dispatching a protocol request\<close>

text \<open>
  Claim C2. When \<^verbatim>\<open>getTransport\<close> throws (the response \<open>r\<close> is then the one the handler
  was given) or \<^verbatim>\<open>handleRequest\<close> throws (\<open>r\<close> is then the response as the library left
  it), the \<^verbatim>\<open>/mcp\<close> handler answers with status 500 and the envelope \<open>{id: null, jsonrpc:
  '2.0', error: {code: -32603, message: 'Internal server error'}}\<close> exactly when the
  headers of \<open>r\<close> have not been sent; when they have been sent, the response is left as
  it is and nothing more is written.
\<close>

theorem generic_error_iff_nothing_sent:
  assumes "fst (getTransport env req (logEvent GetTransport (mcpTrack req now1 now2 s))) = Inl e
             \<and> r = res
           \<or> (\<exists>t. fst (getTransport env req (logEvent GetTransport (mcpTrack req now1 now2 s))) = Inr t
                 \<and> threw (handleRequest env t req res) = Some e
                 \<and> r = responseAfter (handleRequest env t req res))"
  shows "fst (mcpHandler env req res now1 now2 s) =
           (if headersSent r then r
            else r\<lparr> statusCode := 500, headersSent := True,
                    sent := sent r @ [Json genericServerError] \<rparr>)
     \<and> genericServerError =
         JObj [(''id'', JNull), (''jsonrpc'', JStr ''2.0''),
               (''error'', JObj [(''code'', JNum (- 32603)),
                                 (''message'', JStr ''Internal server error'')])]"
proof -
  let ?g = "getTransport env req (logEvent GetTransport (mcpTrack req now1 now2 s))"
  obtain x s1 where g: "?g = (x, s1)" by (cases ?g)
  have "\<exists>s3. mcpTry env req res (mcpTrack req now1 now2 s) = (Some e, r, s3)"
    using assms g by (auto simp add: mcpTry_cases split: sum.split)
  then obtain s3 where "mcpTry env req res (mcpTrack req now1 now2 s) = (Some e, r, s3)" ..
  then have "fst (mcpHandler env req res now1 now2 s) =
      (if headersSent r then r else yieldGenericServerError r)"
    by (simp add: mcpHandler_def)
  then show ?thesis
    by (simp add: yieldGenericServerError_eq genericServerError_def)
qed

theorem generic_error_iff_nothing_sent_witness:
  "(\<exists>t. fst (getTransport failingLibrary toolRequest
              (logEvent GetTransport
                 (mcpTrack toolRequest ''2024-05-01T10:15:00.000Z'' ''2024-05-01T10:15:00.001Z''
                    emptyServer))) = Inr t
        \<and> threw (handleRequest failingLibrary t toolRequest freshResponse) =
            Some (CollaboratorError ''handler failed'')
        \<and> freshResponse = responseAfter (handleRequest failingLibrary t toolRequest freshResponse))
   \<and> fst (mcpHandler failingLibrary toolRequest freshResponse ''2024-05-01T10:15:00.000Z''
            ''2024-05-01T10:15:00.001Z'' emptyServer) =
       \<lparr> statusCode = 500, headersSent = True, sent = [Json genericServerError] \<rparr>
   \<and> fst (mcpHandler interruptedLibrary toolRequest freshResponse ''2024-05-01T10:15:00.000Z''
            ''2024-05-01T10:15:00.001Z'' emptyServer) =
       \<lparr> statusCode = 200, headersSent = True, sent = [Raw ''event: message''] \<rparr>
   \<and> fst (mcpHandler refusingLibrary toolRequest freshResponse ''2024-05-01T10:15:00.000Z''
            ''2024-05-01T10:15:00.001Z'' emptyServer) =
       \<lparr> statusCode = 500, headersSent = True, sent = [Json genericServerError] \<rparr>"
proof -
  let ?n1 = "''2024-05-01T10:15:00.000Z''" and ?n2 = "''2024-05-01T10:15:00.001Z''"
  let ?t = "\<lparr> transportId = 0, sessionIdGenerator = Some RandomUUID,
              hasOnsessioninitialized = True \<rparr>"
  have g: "\<And>env. connect env = (\<lambda>t. None) \<Longrightarrow>
             isListToolsRequest env = isListToolsRequest answeringLibrary \<Longrightarrow>
             fst (getTransport env toolRequest
                (logEvent GetTransport (mcpTrack toolRequest ?n1 ?n2 emptyServer))) = Inr ?t"
    by (simp add: dispatcher_defs example_defs)
  have g1: "fst (getTransport failingLibrary toolRequest
                (logEvent GetTransport (mcpTrack toolRequest ?n1 ?n2 emptyServer))) = Inr ?t"
    by (rule g) (simp_all add: example_defs)
  have g2: "fst (getTransport interruptedLibrary toolRequest
                (logEvent GetTransport (mcpTrack toolRequest ?n1 ?n2 emptyServer))) = Inr ?t"
    by (rule g) (simp_all add: example_defs)
  have g3: "fst (getTransport refusingLibrary toolRequest
                (logEvent GetTransport (mcpTrack toolRequest ?n1 ?n2 emptyServer))) =
              Inl (CollaboratorError ''connect refused'')"
    by (simp add: dispatcher_defs example_defs)
  have h1: "threw (handleRequest failingLibrary ?t toolRequest freshResponse) =
              Some (CollaboratorError ''handler failed'')
            \<and> freshResponse = responseAfter (handleRequest failingLibrary ?t toolRequest freshResponse)"
    by (simp add: example_defs)
  have h2: "threw (handleRequest interruptedLibrary ?t toolRequest freshResponse) =
              Some (CollaboratorError ''stream broken'')
            \<and> responseAfter (handleRequest interruptedLibrary ?t toolRequest freshResponse) =
                \<lparr> statusCode = 200, headersSent = True, sent = [Raw ''event: message''] \<rparr>"
    by (simp add: example_defs)
  have w1: "fst (mcpHandler failingLibrary toolRequest freshResponse ?n1 ?n2 emptyServer) =
       \<lparr> statusCode = 500, headersSent = True, sent = [Json genericServerError] \<rparr>"
    using generic_error_iff_nothing_sent
      [of failingLibrary toolRequest ?n1 ?n2 emptyServer
          "CollaboratorError ''handler failed''" freshResponse freshResponse]
      g1 h1
    by (simp add: freshResponse_def)
  have w2: "fst (mcpHandler interruptedLibrary toolRequest freshResponse ?n1 ?n2 emptyServer) =
       \<lparr> statusCode = 200, headersSent = True, sent = [Raw ''event: message''] \<rparr>"
    using generic_error_iff_nothing_sent
      [of interruptedLibrary toolRequest ?n1 ?n2 emptyServer
          "CollaboratorError ''stream broken''"
          "\<lparr> statusCode = 200, headersSent = True, sent = [Raw ''event: message''] \<rparr>"
          freshResponse]
      g2 h2
    by simp
  have w3: "fst (mcpHandler refusingLibrary toolRequest freshResponse ?n1 ?n2 emptyServer) =
       \<lparr> statusCode = 500, headersSent = True, sent = [Json genericServerError] \<rparr>"
    using generic_error_iff_nothing_sent
      [of refusingLibrary toolRequest ?n1 ?n2 emptyServer
          "CollaboratorError ''connect refused''" freshResponse freshResponse]
      g3
    by (simp add: freshResponse_def)
  show ?thesis
    using g1 h1 w1 w2 w3 by blast
qed

section \<open>The order of tracking and dispatch\<close>

lemma mcpCatch_state:
  "snd (mcpCatch (x, r, s3)) = s3 \<or> snd (mcpCatch (x, r, s3)) = logEvent GenericServerError s3"
  by (simp add: mcpCatch_def split: option.split)

lemma mcpCatch_mcpTry_analytics:
  "analytics (snd (mcpCatch (mcpTry env req res s))) = analytics s"
proof -
  obtain x r s3 where t: "mcpTry env req res s = (x, r, s3)"
    by (cases "mcpTry env req res s")
  have "analytics s3 = analytics s"
    using mcpTry_analytics [of env req res s] t by simp
  then show ?thesis
    using mcpCatch_state [of x r s3] t by (auto simp add: logEvent_frame)
qed

lemma mcpCatch_mcpTry_events:
  "\<exists>rest. events (snd (mcpCatch (mcpTry env req res s))) = events s @ [GetTransport] @ rest
     \<and> rest \<in> {[], [GenericServerError], [HandleRequest], [HandleRequest, GenericServerError]}"
proof -
  obtain x r s3 where t: "mcpTry env req res s = (x, r, s3)"
    by (cases "mcpTry env req res s")
  have "events s3 = events s @ [GetTransport] \<or> events s3 = events s @ [GetTransport, HandleRequest]"
    using mcpTry_events [of env req res s] t by simp
  then show ?thesis
    using mcpCatch_state [of x r s3] t by (auto simp add: logEvent_frame)
qed

lemma trackToolCallValue_thrown:
  "fst (trackToolCallValue name req now a) =
     (case toText name of None \<Rightarrow> Some TypeError | Some key \<Rightarrow> None)"
  by (simp add: trackToolCallValue_def Let_def split: option.split)

lemma trackToolCallValue_total:
  "totalToolCalls (snd (trackToolCallValue name req now a)) = js_add (totalToolCalls a) 1
   \<and> totalRequests (snd (trackToolCallValue name req now a)) = totalRequests a"
  by (simp add: trackToolCallValue_def Let_def split: option.split)

lemma trackToolCallValue_stored:
  assumes "toText name = Some key"
  shows "toolCalls (snd (trackToolCallValue name req now a)) = add_count (toolCalls a) key 1
    \<and> take 1 (recentToolCalls (snd (trackToolCallValue name req now a))) =
        [toolCallRecord name req now]"
  using assms
  by (cases "recentToolCalls a")
    (simp_all add: trackToolCallValue_def Let_def MAX_RECENT_CALLS_def)

lemma trackToolCallValue_failed:
  assumes "toText name = None"
  shows "snd (trackToolCallValue name req now a) =
           a\<lparr> totalToolCalls := js_add (totalToolCalls a) 1 \<rparr>"
  using assms by (simp add: trackToolCallValue_def Let_def)

lemma trackRequest_totals:
  "totalRequests (trackRequest req endpoint now a) = js_add (totalRequests a) 1
   \<and> totalToolCalls (trackRequest req endpoint now a) = totalToolCalls a"
  by (simp add: trackRequest_def)

lemma mcpDispatch_plain:
  assumes "toolCallValue (body req) = None"
  shows "mcpDispatch env req res now1 now2 s =
           (None,
            mcpCatch
              (mcpTry env req res
                 (logEvent (TrackRequest ''/mcp'')
                    (s\<lparr> analytics := trackRequest req ''/mcp'' now1 (analytics s) \<rparr>))))"
  using assms by (simp add: mcpDispatch_def Let_def)

lemma mcpDispatch_tracked:
  assumes "toolCallValue (body req) = Some name" and "toText name = Some key"
  shows "mcpDispatch env req res now1 now2 s =
           (None,
            mcpCatch
              (mcpTry env req res
                 (logEvent (TrackToolCall name)
                    (logEvent (TrackRequest ''/mcp'')
                       (s\<lparr> analytics :=
                            snd (trackToolCallValue name req now2
                                   (trackRequest req ''/mcp'' now1 (analytics s))) \<rparr>)))))"
proof -
  obtain x a where t: "trackToolCallValue name req now2
      (trackRequest req ''/mcp'' now1 (analytics s)) = (x, a)"
    by (cases "trackToolCallValue name req now2 (trackRequest req ''/mcp'' now1 (analytics s))")
  have "x = None"
    using trackToolCallValue_thrown
      [of name req now2 "trackRequest req ''/mcp'' now1 (analytics s)"] t assms(2)
    by simp
  then show ?thesis
    using assms(1) t by (simp add: mcpDispatch_def Let_def logEvent_def)
qed

lemma mcpDispatch_rejected:
  assumes "toolCallValue (body req) = Some name" and "toText name = None"
  shows "mcpDispatch env req res now1 now2 s =
           (Some TypeError, res,
            logEvent (TrackRequest ''/mcp'')
              (s\<lparr> analytics :=
                   (trackRequest req ''/mcp'' now1 (analytics s))
                     \<lparr> totalToolCalls := js_add (totalToolCalls (analytics s)) 1 \<rparr> \<rparr>))"
proof -
  let ?tracked = "trackRequest req ''/mcp'' now1 (analytics s)"
  obtain x a where t: "trackToolCallValue name req now2 ?tracked = (x, a)"
    by (cases "trackToolCallValue name req now2 ?tracked")
  have x: "x = Some TypeError"
    using trackToolCallValue_thrown [of name req now2 ?tracked] t assms(2) by simp
  have "a = ?tracked\<lparr> totalToolCalls := js_add (totalToolCalls ?tracked) 1 \<rparr>"
    using trackToolCallValue_failed [OF assms(2), of req now2 ?tracked] t by simp
  then have a: "a = ?tracked\<lparr> totalToolCalls := js_add (totalToolCalls (analytics s)) 1 \<rparr>"
    by (simp add: trackRequest_totals)
  show ?thesis
    using assms(1) t x a by (simp add: mcpDispatch_def Let_def logEvent_def)
qed

text \<open>
  Claim C9. On every body and whatever the collaborators do, the \<^verbatim>\<open>/mcp\<close> handler first
  records the request with \<^verbatim>\<open>trackRequest\<close>. When the body's method is
  \<^verbatim>\<open>tools/call\<close> and \<^verbatim>\<open>params.name\<close> is truthy it then calls \<^verbatim>\<open>trackToolCall\<close>, which
  counts the call under the name's text and puts its record at the head of the recent
  calls, and only after that is the transport resolved and the request handed to it. The
  store at the end is the one the tracking left, whether resolution or handling failed or
  not, with the request counter incremented (by one, while it is within \<open>2 ^ 53\<close>). The
  one name that \<^verbatim>\<open>trackToolCall\<close> does not record is a name whose conversion to a
  property key throws: the counter of tool calls is already incremented, the handler's
  promise is rejected, and the transport is never resolved.
\<close>

theorem request_recorded_before_dispatch:
  "(case toolCallValue (body req) of
      None \<Rightarrow>
        fst (mcpDispatch env req res now1 now2 s) = None
        \<and> (\<exists>rest. events (snd (snd (mcpDispatch env req res now1 now2 s))) =
                     events s @ [TrackRequest ''/mcp'', GetTransport] @ rest
                   \<and> rest \<in> {[], [GenericServerError], [HandleRequest],
                              [HandleRequest, GenericServerError]})
        \<and> analytics (snd (snd (mcpDispatch env req res now1 now2 s))) =
            trackRequest req ''/mcp'' now1 (analytics s)
    | Some name \<Rightarrow>
        (case toText name of
           Some key \<Rightarrow>
             fst (mcpDispatch env req res now1 now2 s) = None
             \<and> (\<exists>rest. events (snd (snd (mcpDispatch env req res now1 now2 s))) =
                          events s @ [TrackRequest ''/mcp'', TrackToolCall name, GetTransport]
                            @ rest
                        \<and> rest \<in> {[], [GenericServerError], [HandleRequest],
                                   [HandleRequest, GenericServerError]})
             \<and> analytics (snd (snd (mcpDispatch env req res now1 now2 s))) =
                 snd (trackToolCallValue name req now2
                        (trackRequest req ''/mcp'' now1 (analytics s)))
             \<and> toolCalls (analytics (snd (snd (mcpDispatch env req res now1 now2 s)))) =
                 add_count (toolCalls (analytics s)) key 1
             \<and> take 1 (recentToolCalls
                         (analytics (snd (snd (mcpDispatch env req res now1 now2 s))))) =
                 [\<lparr> tool = name, timestamp = now2, clientIp = clientIpOf req,
                    userAgent = userAgentOf req \<rparr>]
         | None \<Rightarrow>
             fst (mcpDispatch env req res now1 now2 s) = Some TypeError
             \<and> fst (snd (mcpDispatch env req res now1 now2 s)) = res
             \<and> events (snd (snd (mcpDispatch env req res now1 now2 s))) =
                 events s @ [TrackRequest ''/mcp'']
             \<and> analytics (snd (snd (mcpDispatch env req res now1 now2 s))) =
                 (trackRequest req ''/mcp'' now1 (analytics s))
                   \<lparr> totalToolCalls := js_add (totalToolCalls (analytics s)) 1 \<rparr>))
   \<and> totalRequests (analytics (snd (snd (mcpDispatch env req res now1 now2 s)))) =
       js_add (totalRequests (analytics s)) 1
   \<and> (\<bar>totalRequests (analytics s) + 1\<bar> \<le> 2 ^ 53 \<longrightarrow>
        totalRequests (analytics (snd (snd (mcpDispatch env req res now1 now2 s)))) =
          totalRequests (analytics s) + 1)
   \<and> totalToolCalls (analytics (snd (snd (mcpDispatch env req res now1 now2 s)))) =
       (case toolCallValue (body req) of
          None \<Rightarrow> totalToolCalls (analytics s)
        | Some name \<Rightarrow> js_add (totalToolCalls (analytics s)) 1)"
proof -
  let ?tracked = "trackRequest req ''/mcp'' now1 (analytics s)"
  let ?s1 = "logEvent (TrackRequest ''/mcp'') (s\<lparr> analytics := ?tracked \<rparr>)"
  let ?final = "snd (snd (mcpDispatch env req res now1 now2 s))"
  show ?thesis
  proof (cases "toolCallValue (body req)")
    case None
    have d: "mcpDispatch env req res now1 now2 s = (None, mcpCatch (mcpTry env req res ?s1))"
      using None by (rule mcpDispatch_plain)
    have an: "analytics ?final = ?tracked"
      using mcpCatch_mcpTry_analytics [of env req res ?s1] by (simp add: d logEvent_frame)
    have ev: "\<exists>rest. events ?final = events s @ [TrackRequest ''/mcp'', GetTransport] @ rest
        \<and> rest \<in> {[], [GenericServerError], [HandleRequest],
                   [HandleRequest, GenericServerError]}"
      using mcpCatch_mcpTry_events [of env req res ?s1] by (simp add: d logEvent_frame)
    show ?thesis
      using None an ev by (simp add: d trackRequest_totals js_add_exact)
  next
    case (Some name)
    show ?thesis
    proof (cases "toText name")
      case None
      have d: "mcpDispatch env req res now1 now2 s =
           (Some TypeError, res,
            logEvent (TrackRequest ''/mcp'')
              (s\<lparr> analytics :=
                   ?tracked\<lparr> totalToolCalls := js_add (totalToolCalls (analytics s)) 1 \<rparr> \<rparr>))"
        using Some None by (rule mcpDispatch_rejected)
      show ?thesis
        using Some None by (simp add: d logEvent_frame trackRequest_totals js_add_exact)
    next
      case (Some key)
      note name = \<open>toolCallValue (body req) = Some name\<close>
      let ?a = "snd (trackToolCallValue name req now2 ?tracked)"
      let ?s2 = "logEvent (TrackToolCall name)
                   (logEvent (TrackRequest ''/mcp'') (s\<lparr> analytics := ?a \<rparr>))"
      have d: "mcpDispatch env req res now1 now2 s = (None, mcpCatch (mcpTry env req res ?s2))"
        using name Some by (rule mcpDispatch_tracked)
      have an: "analytics ?final = ?a"
        using mcpCatch_mcpTry_analytics [of env req res ?s2] by (simp add: d logEvent_frame)
      have ev: "\<exists>rest. events ?final =
            events s @ [TrackRequest ''/mcp'', TrackToolCall name, GetTransport] @ rest
          \<and> rest \<in> {[], [GenericServerError], [HandleRequest],
                     [HandleRequest, GenericServerError]}"
        using mcpCatch_mcpTry_events [of env req res ?s2] by (simp add: d logEvent_frame)
      have st: "toolCalls ?a = add_count (toolCalls (analytics s)) key 1
          \<and> take 1 (recentToolCalls ?a) =
              [\<lparr> tool = name, timestamp = now2, clientIp = clientIpOf req,
                 userAgent = userAgentOf req \<rparr>]"
        using trackToolCallValue_stored [OF Some, of req now2 ?tracked]
        by (simp add: trackRequest_def toolCallRecord_def)
      have tot: "totalToolCalls ?a = js_add (totalToolCalls (analytics s)) 1
          \<and> totalRequests ?a = js_add (totalRequests (analytics s)) 1"
        using trackToolCallValue_total [of name req now2 ?tracked]
        by (simp add: trackRequest_totals)
      show ?thesis
        using name Some an ev st tot by (simp add: d js_add_exact)
    qed
  qed
qed

theorem request_recorded_before_dispatch_witness:
  "\<bar>totalRequests (analytics emptyServer) + 1\<bar> \<le> 2 ^ 53
   \<and> toolCallValue (body (asValueRequest toolRequest)) = Some (VString ''brave_web_search'')
   \<and> totalRequests
        (analytics
           (snd (snd (mcpDispatch valueLibrary (asValueRequest toolRequest) freshResponse
              ''2024-05-01T10:15:00.000Z'' ''2024-05-01T10:15:00.001Z'' emptyServer)))) = 1
   \<and> toolCalls
        (analytics
           (snd (snd (mcpDispatch valueLibrary (asValueRequest toolRequest) freshResponse
              ''2024-05-01T10:15:00.000Z'' ''2024-05-01T10:15:00.001Z'' emptyServer))))
        ''brave_web_search'' = Some (Number 1)
   \<and> toolCallValue (body oddNameRequest) = Some (VObject [(''toString'', VNull)])
   \<and> fst (mcpDispatch valueLibrary oddNameRequest freshResponse
        ''2024-05-01T10:15:00.000Z'' ''2024-05-01T10:15:00.001Z'' emptyServer) = Some TypeError
   \<and> events
        (snd (snd (mcpDispatch valueLibrary oddNameRequest freshResponse
           ''2024-05-01T10:15:00.000Z'' ''2024-05-01T10:15:00.001Z'' emptyServer))) =
       [TrackRequest ''/mcp'']"
proof -
  let ?n1 = "''2024-05-01T10:15:00.000Z''" and ?n2 = "''2024-05-01T10:15:00.001Z''"
  have none: "totalRequests (analytics emptyServer) = 0"
    by (simp add: emptyServer_def initialAnalytics_def)
  have small: "\<bar>totalRequests (analytics emptyServer) + 1\<bar> \<le> 2 ^ 53"
    by (simp add: none)
  have name: "toolCallValue (body (asValueRequest toolRequest)) =
      Some (VString ''brave_web_search'')"
    by (simp add: toolCallValue_def asValueRequest_def withBody_def asValue_def toolRequest_def)
  have odd_name: "toolCallValue (body oddNameRequest) = Some (VObject [(''toString'', VNull)])"
    by (simp add: toolCallValue_def oddNameRequest_def)
  have tools: "toolCalls (analytics emptyServer) = Map.empty"
    by (simp add: emptyServer_def initialAnalytics_def)
  have one: "add_count Map.empty ''brave_web_search'' 1 ''brave_web_search'' = Some (Number 1)"
    using add_count_number [of Map.empty "''brave_web_search''" 0 1]
    by (simp add: numberAt_def count_of_def objectPrototypeKeys_def js_add_exact)
  note tool_call =
    request_recorded_before_dispatch
      [where req = "asValueRequest toolRequest" and env = valueLibrary and res = freshResponse
         and ?now1.0 = ?n1 and ?now2.0 = ?n2 and s = emptyServer]
  have requests: "totalRequests
        (analytics
           (snd (snd (mcpDispatch valueLibrary (asValueRequest toolRequest) freshResponse
              ?n1 ?n2 emptyServer)))) = 1"
    using tool_call [THEN conjunct2, THEN conjunct1] by (simp add: none js_add_exact)
  have counted: "toolCalls
        (analytics
           (snd (snd (mcpDispatch valueLibrary (asValueRequest toolRequest) freshResponse
              ?n1 ?n2 emptyServer))))
        ''brave_web_search'' = Some (Number 1)"
  proof -
    have "toolCalls
        (analytics
           (snd (snd (mcpDispatch valueLibrary (asValueRequest toolRequest) freshResponse
              ?n1 ?n2 emptyServer)))) =
        add_count (toolCalls (analytics emptyServer)) ''brave_web_search'' 1"
      by (rule tool_call [THEN conjunct1, unfolded name option.case toText.simps,
            THEN conjunct2, THEN conjunct2, THEN conjunct2, THEN conjunct1])
    then show ?thesis by (simp add: tools one)
  qed
  note odd_call =
    request_recorded_before_dispatch
      [where req = oddNameRequest and env = valueLibrary and res = freshResponse
         and ?now1.0 = ?n1 and ?now2.0 = ?n2 and s = emptyServer]
  have events0: "events emptyServer = []"
    by (simp add: emptyServer_def)
  have second: "fst (mcpDispatch valueLibrary oddNameRequest freshResponse ?n1 ?n2 emptyServer) =
        Some TypeError
      \<and> events (snd (snd (mcpDispatch valueLibrary oddNameRequest freshResponse ?n1 ?n2
           emptyServer))) = [TrackRequest ''/mcp'']"
    using odd_call [THEN conjunct1, unfolded odd_name option.case]
    by (simp add: events0)
  show ?thesis
    using small name odd_name requests counted second by blast
qed

text \<open>
  On a body of type \<open>rpc_body\<close> the handler on any body is \<open>mcpHandler\<close>: its promise is
  not rejected, and response and state are the same.
\<close>

lemma toolCallValue_asValue:
  "toolCallValue (map_option asValue b) = map_option VString (toolCallName b)"
  by (cases b)
    (auto simp add: toolCallValue_def toolCallName_def asValue_def truthy_def
      split: option.splits)

lemma withBody_reads:
  "clientIpOf (withBody req b) = clientIpOf req \<and> userAgentOf (withBody req b) = userAgentOf req
   \<and> req_method (withBody req b) = req_method req \<and> headers (withBody req b) = headers req
   \<and> body (withBody req b) = b"
  by (simp add: withBody_def clientIpOf_def userAgentOf_def)

lemma trackRequest_withBody:
  "trackRequest (withBody req b) endpoint now a = trackRequest req endpoint now a"
  by (simp add: trackRequest_def withBody_reads)

lemma trackToolCallValue_string:
  "trackToolCallValue (VString n) (withBody req b) now a = (None, trackToolCall n req now a)"
  by (simp add: trackToolCallValue_def trackToolCall_def newToolCall_def toolCallRecord_def
      withBody_reads Let_def)

lemma onRpcBodies_reads:
  "connect (onRpcBodies env) = connect env"
  "isListToolsRequest (onRpcBodies env) b = isListToolsRequest env (map_option asValue b)"
  "handleRequest (onRpcBodies env) t req res = handleRequest env t (asValueRequest req) res"
  by (simp_all add: onRpcBodies_def)

lemma newTransport_onRpcBodies:
  "newTransport (onRpcBodies env) gen cb s = newTransport env gen cb s"
  by (simp add: newTransport_def onRpcBodies_reads)

lemma getTransport_onRpcBodies:
  "getTransport (onRpcBodies env) req s = getTransport env (asValueRequest req) s"
  by (simp add: getTransport_def newTransport_onRpcBodies onRpcBodies_reads asValueRequest_def
      withBody_reads Let_def split: option.split)

lemma mcpTry_onRpcBodies:
  "mcpTry (onRpcBodies env) req res s = mcpTry env (asValueRequest req) res s"
  by (simp add: mcpTry_def getTransport_onRpcBodies onRpcBodies_reads Let_def
      split: prod.split sum.split)

lemma mcpHandler_mcpCatch:
  "mcpHandler env req res now1 now2 s = mcpCatch (mcpTry env req res (mcpTrack req now1 now2 s))"
  by (simp add: mcpHandler_def mcpCatch_def)

lemma mcpDispatch_onRpcBodies:
  "mcpDispatch env (asValueRequest req) res now1 now2 s =
     (None, mcpHandler (onRpcBodies env) req res now1 now2 s)"
proof (cases "toolCallName (body req)")
  case None
  then have "toolCallValue (body (asValueRequest req)) = None"
    by (simp add: asValueRequest_def withBody_reads toolCallValue_asValue)
  then show ?thesis
    using None
    by (simp add: mcpDispatch_def mcpHandler_mcpCatch mcpTrack_def mcpTry_onRpcBodies Let_def)
      (simp add: asValueRequest_def trackRequest_withBody)
next
  case (Some n)
  then have "toolCallValue (body (asValueRequest req)) = Some (VString n)"
    by (simp add: asValueRequest_def withBody_reads toolCallValue_asValue)
  then show ?thesis
    using Some
    by (simp add: mcpDispatch_def mcpHandler_mcpCatch mcpTrack_def mcpTry_onRpcBodies Let_def)
      (simp add: asValueRequest_def trackRequest_withBody trackToolCallValue_string
        logEvent_def)
qed

section \<open>Importing counts\<close>

lemma add_count_at:
  "add_count m k d k =
     (if k = ''__proto__'' \<and> m k = None then None else Some (plus_cell (count_of m k) d))"
  by (auto simp add: add_count_def set_prop_def)

lemma count_of_cong: "m k = m' k \<Longrightarrow> count_of m k = count_of m' k"
  by (simp add: count_of_def)

lemma add_count_at_cong: "m k = m' k \<Longrightarrow> add_count m k d k = add_count m' k d k"
  by (auto simp add: add_count_at count_of_cong [of m k m'])

lemma mergeCounts_other: "k \<notin> fst ` set es \<Longrightarrow> mergeCounts m es k = m k"
  by (induction m es rule: mergeCounts.induct) (auto simp add: add_count_other)

text \<open>
  The entries of an object have distinct keys, so the loop assigns each supplied key
  once: \<^verbatim>\<open>m[k] = (m[k] || 0) + count\<close> on the object as it was.
\<close>

lemma mergeCounts_entry:
  "distinct (map fst es) \<Longrightarrow> (k, n) \<in> set es \<Longrightarrow>
   mergeCounts m es k = add_count m k (toDouble n) k"
proof (induction m es rule: mergeCounts.induct)
  case (1 m)
  then show ?case by simp
next
  case (2 m k' n' es)
  show ?case
  proof (cases "k' = k")
    case True
    then have "k \<notin> fst ` set es" and "n' = n"
      using "2.prems" by (auto simp add: rev_image_eqI)
    then show ?thesis
      using True by (simp add: mergeCounts_other)
  next
    case False
    then have "(k, n) \<in> set es" and "distinct (map fst es)"
      using "2.prems" by auto
    then have "mergeCounts (add_count m k' (toDouble n')) es k =
        add_count (add_count m k' (toDouble n')) k (toDouble n) k"
      using "2.IH" by simp
    moreover have "add_count (add_count m k' (toDouble n')) k (toDouble n) k =
        add_count m k (toDouble n) k"
      using False by (intro add_count_at_cong) (simp add: add_count_other)
    ultimately show ?thesis by simp
  qed
qed

lemma mergeCounts_sum:
  assumes "distinct (map fst es)" and "(k, n) \<in> set es" and "numberAt m k = Some c"
    and "\<bar>n\<bar> \<le> 2 ^ 53" and "\<bar>c + n\<bar> \<le> 2 ^ 53"
  shows "mergeCounts m es k = Some (Number (c + n))"
  using assms
  by (simp add: mergeCounts_entry add_count_number toDouble_exact js_add_exact)

lemma mergeSection_added:
  "case Option.bind b section of
     None \<Rightarrow> mergeSection b section m = m
   | Some es \<Rightarrow>
       distinct (map fst es) \<longrightarrow>
       (\<forall>k. k \<notin> fst ` set es \<longrightarrow> mergeSection b section m k = m k)
       \<and> (\<forall>k n c. (k, n) \<in> set es \<and> numberAt m k = Some c \<and> \<bar>n\<bar> \<le> 2 ^ 53
             \<and> \<bar>c + n\<bar> \<le> 2 ^ 53
           \<longrightarrow> mergeSection b section m k = Some (Number (c + n)))"
  by (auto simp add: mergeSection_def mergeCounts_other mergeCounts_sum split: option.split)

lemma analyticsImport_accepted:
  assumes "\<not> truthy importKeyEnv \<or> query req ''key'' = map_option QString importKeyEnv"
    and "body req = Some d"
  shows "fst (snd (analyticsImport importKeyEnv req res a fs)) = mergeImport d a"
  using assms by (auto simp add: analyticsImport_def Let_def)

text \<open>
  Claim C6. When \<^verbatim>\<open>ANALYTICS_IMPORT_KEY\<close> is set to a non-empty secret and the \<^verbatim>\<open>key\<close>
  query parameter is missing, is not a string or differs from the secret, the import
  handler answers 403 with \<open>{error: 'Invalid import key'}\<close> and returns the analytics and
  the file system as they were: no counter and no recent call changes, and nothing is
  saved.
\<close>

theorem import_rejected_without_key:
  assumes "importKeyEnv = Some secret" and "secret \<noteq> []"
    and "query req ''key'' \<noteq> Some (QString secret)"
  shows "analyticsImport importKeyEnv req res a fs =
           (res\<lparr> statusCode := 403, headersSent := True,
                  sent := sent res @ [Json (JObj [(''error'', JStr ''Invalid import key'')])] \<rparr>,
            a, fs)"
  using assms by (simp add: analyticsImport_def truthy_def res_json_def res_status_def)

theorem import_rejected_without_key_witness:
  "''s3cret'' \<noteq> [] \<and> query searchImport ''key'' \<noteq> Some (QString ''s3cret'')
   \<and> analyticsImport (Some ''s3cret'') searchImport freshResponse searchAnalytics workingDisk =
       (\<lparr> statusCode = 403, headersSent = True,
          sent = [Json (JObj [(''error'', JStr ''Invalid import key'')])] \<rparr>,
        searchAnalytics, workingDisk)"
proof -
  have q: "query searchImport ''key'' \<noteq> Some (QString ''s3cret'')"
    by (simp add: searchImport_def)
  show ?thesis
    using q
      import_rejected_without_key
        [OF refl _ q, of freshResponse searchAnalytics workingDisk]
    by (simp add: freshResponse_def)
qed

text \<open>
  Claim C7, as the code has it. An import that is not rejected and has a body of integer
  counts, each object with its keys distinct, adds the two totals of \<^verbatim>\<open>summary\<close> (each 0
  when missing) to \<^verbatim>\<open>totalRequests\<close> and \<^verbatim>\<open>totalToolCalls\<close>, and the counts of
  \<^verbatim>\<open>byMethod\<close>, \<^verbatim>\<open>byEndpoint\<close> and \<^verbatim>\<open>byTool\<close> key by key to \<^verbatim>\<open>requestsByMethod\<close>,
  \<^verbatim>\<open>requestsByEndpoint\<close> and \<^verbatim>\<open>toolCalls\<close>: the sum is exact where the supplied count
  and the sum are at most \<open>2 ^ 53\<close> in absolute value and, for a key, where
  \<^verbatim>\<open>m[k] || 0\<close> is a number, that is the object holds a number under the key or holds
  nothing and \<^verbatim>\<open>Object.prototype\<close> does not define it. A missing section changes
  nothing, and neither does the import change a key it does not supply. The recent calls
  and every other field are as before. The witness is the specification's example: 5
  imported for \<open>search\<close> on top of 3 gives 8.
\<close>

theorem import_adds_counts:
  assumes "\<not> truthy importKeyEnv \<or> query req ''key'' = map_option QString importKeyEnv"
    and "body req = Some d"
    and "\<forall>section \<in> set [byMethod, byEndpoint, byTool].
           case Option.bind (breakdown d) section of
             None \<Rightarrow> True
           | Some es \<Rightarrow> distinct (map fst es)"
  shows "(let a' = fst (snd (analyticsImport importKeyEnv req res a fs)) in
      (\<forall>(supplied, total) \<in> set [(summaryTotalRequests, totalRequests),
                                   (summaryTotalToolCalls, totalToolCalls)].
         \<forall>n. (case Option.bind (summary d) supplied of None \<Rightarrow> 0 | Some v \<Rightarrow> v) = n
              \<and> \<bar>n\<bar> \<le> 2 ^ 53 \<and> \<bar>total a + n\<bar> \<le> 2 ^ 53
           \<longrightarrow> total a' = total a + n)
    \<and> (\<forall>(section, counter) \<in> set [(byMethod, requestsByMethod),
                                     (byEndpoint, requestsByEndpoint),
                                     (byTool, toolCalls)].
         case Option.bind (breakdown d) section of
           None \<Rightarrow> counter a' = counter a
         | Some es \<Rightarrow>
             (\<forall>k. k \<notin> fst ` set es \<longrightarrow> counter a' k = counter a k)
             \<and> (\<forall>k n c. (k, n) \<in> set es \<and> numberAt (counter a) k = Some c
                   \<and> \<bar>n\<bar> \<le> 2 ^ 53 \<and> \<bar>c + n\<bar> \<le> 2 ^ 53
                 \<longrightarrow> counter a' k = Some (Number (c + n))))
    \<and> recentToolCalls a' = recentToolCalls a
    \<and> clientsByIp a' = clientsByIp a
    \<and> clientsByUserAgent a' = clientsByUserAgent a
    \<and> hourlyRequests a' = hourlyRequests a
    \<and> serverStartTime a' = serverStartTime a)"
proof -
  have m: "fst (snd (analyticsImport importKeyEnv req res a fs)) = mergeImport d a"
    using assms(1,2) by (rule analyticsImport_accepted)
  have totals:
    "\<And>n. (case Option.bind (summary d) summaryTotalRequests of None \<Rightarrow> 0 | Some v \<Rightarrow> v) = n
        \<Longrightarrow> \<bar>n\<bar> \<le> 2 ^ 53 \<Longrightarrow> \<bar>totalRequests a + n\<bar> \<le> 2 ^ 53
        \<Longrightarrow> totalRequests (mergeImport d a) = totalRequests a + n"
    "\<And>n. (case Option.bind (summary d) summaryTotalToolCalls of None \<Rightarrow> 0 | Some v \<Rightarrow> v) = n
        \<Longrightarrow> \<bar>n\<bar> \<le> 2 ^ 53 \<Longrightarrow> \<bar>totalToolCalls a + n\<bar> \<le> 2 ^ 53
        \<Longrightarrow> totalToolCalls (mergeImport d a) = totalToolCalls a + n"
    by (cases "summary d";
        auto simp add: mergeImport_def Let_def orZero_def toDouble_exact js_add_exact
          split: option.splits)+
  have fields: "requestsByMethod (mergeImport d a) =
        mergeSection (breakdown d) byMethod (requestsByMethod a)"
      "requestsByEndpoint (mergeImport d a) =
        mergeSection (breakdown d) byEndpoint (requestsByEndpoint a)"
      "toolCalls (mergeImport d a) = mergeSection (breakdown d) byTool (toolCalls a)"
      "recentToolCalls (mergeImport d a) = recentToolCalls a"
      "clientsByIp (mergeImport d a) = clientsByIp a"
      "clientsByUserAgent (mergeImport d a) = clientsByUserAgent a"
      "hourlyRequests (mergeImport d a) = hourlyRequests a"
      "serverStartTime (mergeImport d a) = serverStartTime a"
    by (cases "summary d"; simp add: mergeImport_def Let_def)+
  have sections:
    "case Option.bind (breakdown d) byMethod of
       None \<Rightarrow> requestsByMethod (mergeImport d a) = requestsByMethod a
     | Some es \<Rightarrow>
         (\<forall>k. k \<notin> fst ` set es \<longrightarrow>
            requestsByMethod (mergeImport d a) k = requestsByMethod a k)
         \<and> (\<forall>k n c. (k, n) \<in> set es \<and> numberAt (requestsByMethod a) k = Some c
               \<and> \<bar>n\<bar> \<le> 2 ^ 53 \<and> \<bar>c + n\<bar> \<le> 2 ^ 53
             \<longrightarrow> requestsByMethod (mergeImport d a) k = Some (Number (c + n)))"
    "case Option.bind (breakdown d) byEndpoint of
       None \<Rightarrow> requestsByEndpoint (mergeImport d a) = requestsByEndpoint a
     | Some es \<Rightarrow>
         (\<forall>k. k \<notin> fst ` set es \<longrightarrow>
            requestsByEndpoint (mergeImport d a) k = requestsByEndpoint a k)
         \<and> (\<forall>k n c. (k, n) \<in> set es \<and> numberAt (requestsByEndpoint a) k = Some c
               \<and> \<bar>n\<bar> \<le> 2 ^ 53 \<and> \<bar>c + n\<bar> \<le> 2 ^ 53
             \<longrightarrow> requestsByEndpoint (mergeImport d a) k = Some (Number (c + n)))"
    "case Option.bind (breakdown d) byTool of
       None \<Rightarrow> toolCalls (mergeImport d a) = toolCalls a
     | Some es \<Rightarrow>
         (\<forall>k. k \<notin> fst ` set es \<longrightarrow> toolCalls (mergeImport d a) k = toolCalls a k)
         \<and> (\<forall>k n c. (k, n) \<in> set es \<and> numberAt (toolCalls a) k = Some c
               \<and> \<bar>n\<bar> \<le> 2 ^ 53 \<and> \<bar>c + n\<bar> \<le> 2 ^ 53
             \<longrightarrow> toolCalls (mergeImport d a) k = Some (Number (c + n)))"
    using assms(3)
      mergeSection_added [of "breakdown d" byMethod "requestsByMethod a"]
      mergeSection_added [of "breakdown d" byEndpoint "requestsByEndpoint a"]
      mergeSection_added [of "breakdown d" byTool "toolCalls a"]
    by (simp_all add: fields split: option.splits)
  show ?thesis
    unfolding m Let_def
    using totals sections fields(4-8) by simp
qed

theorem import_adds_counts_witness:
  "body searchImport =
     Some \<lparr> summary = None,
            breakdown = Some \<lparr> byMethod = None, byEndpoint = None,
                               byTool = Some [(''search'', 5)] \<rparr> \<rparr>
   \<and> toolCalls searchAnalytics ''search'' = Some (Number 3)
   \<and> toolCalls (fst (snd (analyticsImport None searchImport freshResponse searchAnalytics
        workingDisk))) ''search'' = Some (Number 8)
   \<and> recentToolCalls (fst (snd (analyticsImport None searchImport freshResponse
        searchAnalytics workingDisk))) = recentToolCalls searchAnalytics"
proof -
  let ?d = "\<lparr> summary = None,
            breakdown = Some \<lparr> byMethod = None, byEndpoint = None,
                               byTool = Some [(''search'', 5)] \<rparr> \<rparr>"
  have b: "body searchImport = Some ?d"
    by (simp add: searchImport_def)
  have k: "\<not> truthy None \<or> query searchImport ''key'' = map_option QString None"
    by (simp add: truthy_def)
  have w: "\<forall>section \<in> set [byMethod, byEndpoint, byTool].
           case Option.bind (breakdown ?d) section of
             None \<Rightarrow> True
           | Some es \<Rightarrow> distinct (map fst es)"
    by simp
  have old: "toolCalls searchAnalytics ''search'' = Some (Number 3)"
    by (simp add: searchAnalytics_def initialAnalytics_def)
  have three: "numberAt (toolCalls searchAnalytics) ''search'' = Some 3"
    by (simp add: numberAt_def count_of_def old)
  show ?thesis
    using b old three
      import_adds_counts [OF k b w, of freshResponse searchAnalytics workingDisk]
    by (simp add: Let_def)
qed

text \<open>
  Claim C7 as it was stated fails on two imports that the handler accepts. Five calls
  imported under \<open>__proto__\<close> leave \<^verbatim>\<open>toolCalls\<close> without that key, and with no other
  change. One request imported into a store that has counted \<open>2 ^ 53\<close> leaves the
  counter at \<open>2 ^ 53\<close>.
\<close>

theorem import_counts_counterexample:
  "toolCalls
     (fst (snd (analyticsImport None protoImport freshResponse searchAnalytics workingDisk))) =
     toolCalls searchAnalytics
   \<and> toolCalls
       (fst (snd (analyticsImport None protoImport freshResponse searchAnalytics workingDisk)))
       ''__proto__'' = None
   \<and> totalRequests saturatedAnalytics = 2 ^ 53
   \<and> totalRequests
       (fst (snd (analyticsImport None oneMoreImport freshResponse saturatedAnalytics
          workingDisk))) = 2 ^ 53"
proof -
  have p: "fst (snd (analyticsImport None protoImport freshResponse searchAnalytics workingDisk)) =
      mergeImport \<lparr> summary = None,
                     breakdown = Some \<lparr> byMethod = None, byEndpoint = None,
                                        byTool = Some [(''__proto__'', 5)] \<rparr> \<rparr> searchAnalytics"
    by (simp add: analyticsImport_def truthy_def protoImport_def Let_def)
  have none: "toolCalls searchAnalytics ''__proto__'' = None"
    by (simp add: searchAnalytics_def initialAnalytics_def)
  have dropped: "toolCalls
     (fst (snd (analyticsImport None protoImport freshResponse searchAnalytics workingDisk))) =
     toolCalls searchAnalytics"
    by (simp add: p mergeImport_def mergeSection_def Let_def add_count_proto none)
  have one: "fst (snd (analyticsImport None oneMoreImport freshResponse saturatedAnalytics
      workingDisk)) =
      mergeImport \<lparr> summary = Some \<lparr> summaryTotalRequests = Some 1,
                                      summaryTotalToolCalls = None \<rparr>,
                     breakdown = None \<rparr> saturatedAnalytics"
    by (simp add: analyticsImport_def truthy_def oneMoreImport_def Let_def)
  have full: "totalRequests saturatedAnalytics = 2 ^ 53"
    by (simp add: saturatedAnalytics_def)
  have absorbed: "totalRequests
       (fst (snd (analyticsImport None oneMoreImport freshResponse saturatedAnalytics
          workingDisk))) = 2 ^ 53"
    using js_add_absorbed
    by (simp add: one mergeImport_def Let_def orZero_def toDouble_exact full)
  show ?thesis
    using dropped none full absorbed by simp
qed

section \<open>Persisting and reloading\<close>

lemma saveAnalytics_written:
  assumes "dirExists fs \<or> \<not> mkdirThrows fs" and "\<not> writeThrows fs"
  shows "saveAnalytics a fs = fs\<lparr> dirExists := True, analyticsFile := Some (Document a) \<rparr>"
  using assms by (auto simp add: saveAnalytics_def ensureDataDir_def writeFileSync_def)

lemma loadAnalytics_document:
  assumes "dirExists fs" and "analyticsFile fs = Some (Document d)" and "\<not> readThrows fs"
  shows "fst (loadAnalytics now current fs) =
           d\<lparr> serverStartTime := (if serverStartTime d = [] then now else serverStartTime d) \<rparr>"
  using assms
  by (simp add: loadAnalytics_def ensureDataDir_def readFileSync_def JSON_parse_def)

lemma started_kept:
  "now \<noteq> [] \<Longrightarrow> started (initialAnalytics now)"
  "now \<noteq> [] \<Longrightarrow> started a \<Longrightarrow> started (fst (loadAnalytics now a fs))"
  "started a \<Longrightarrow> started (trackRequest req endpoint now a)"
  "started a \<Longrightarrow> started (trackToolCall toolName req now a)"
  "started a \<Longrightarrow> started (mergeImport d a)"
  by (auto simp add: started_def initialAnalytics_def loadAnalytics_def trackRequest_def
      trackToolCall_def mergeImport_def Let_def
      split: sum.split option.split file_content.split)

text \<open>
  Claim C8. When the data directory exists or can be made and the write and the read
  succeed, \<^verbatim>\<open>saveAnalytics\<close> stores the snapshot and a later \<^verbatim>\<open>loadAnalytics\<close>, at any
  time and over any current value, yields the stored snapshot with its stored start
  time. (The start time would be replaced by the time of the reload only if the stored
  one were empty, which by \<open>started_kept\<close> it never is in a snapshot the module holds.)
\<close>

theorem persist_then_reload:
  assumes "dirExists fs \<or> \<not> mkdirThrows fs" and "\<not> writeThrows fs" and "\<not> readThrows fs"
  shows "analyticsFile (saveAnalytics a fs) = Some (Document a)
    \<and> fst (loadAnalytics now current (saveAnalytics a fs)) =
        a\<lparr> serverStartTime := (if serverStartTime a = [] then now else serverStartTime a) \<rparr>
    \<and> (started a \<longrightarrow> fst (loadAnalytics now current (saveAnalytics a fs)) = a)"
proof -
  let ?fs = "fs\<lparr> dirExists := True, analyticsFile := Some (Document a) \<rparr>"
  have w: "saveAnalytics a fs = ?fs"
    using assms(1,2) by (rule saveAnalytics_written)
  have l: "fst (loadAnalytics now current ?fs) =
        a\<lparr> serverStartTime := (if serverStartTime a = [] then now else serverStartTime a) \<rparr>"
    using assms(3) by (intro loadAnalytics_document) simp_all
  show ?thesis
    using l by (simp add: w started_def)
qed

theorem persist_then_reload_witness:
  "(dirExists workingDisk \<or> \<not> mkdirThrows workingDisk) \<and> \<not> writeThrows workingDisk
   \<and> \<not> readThrows workingDisk \<and> started searchAnalytics
   \<and> fst (loadAnalytics ''2024-05-02T00:00:00.000Z''
            (initialAnalytics ''2024-05-02T00:00:00.000Z'')
            (saveAnalytics searchAnalytics workingDisk)) = searchAnalytics
   \<and> serverStartTime
        (fst (loadAnalytics ''2024-05-02T00:00:00.000Z''
            (initialAnalytics ''2024-05-02T00:00:00.000Z'')
            (saveAnalytics searchAnalytics workingDisk))) = ''2024-05-01T08:00:00.000Z''"
proof -
  have d: "dirExists workingDisk \<or> \<not> mkdirThrows workingDisk"
    and w: "\<not> writeThrows workingDisk" and r: "\<not> readThrows workingDisk"
    by (simp_all add: workingDisk_def)
  have s: "started searchAnalytics"
    by (simp add: started_def searchAnalytics_def initialAnalytics_def)
  have t: "serverStartTime searchAnalytics = ''2024-05-01T08:00:00.000Z''"
    by (simp add: searchAnalytics_def initialAnalytics_def)
  show ?thesis
    using d w r s t
      persist_then_reload [OF d w r, of searchAnalytics "''2024-05-02T00:00:00.000Z''"
        "initialAnalytics ''2024-05-02T00:00:00.000Z''"]
    by simp
qed

end
